theory Spec2Isabelle
  imports Main "HOL-Library.Sublist" "HOL-Library.AList"
begin

section \<open>Python strings\<close>

text \<open>
  Python's \<open>str\<close> is modelled by \<open>string\<close>, one \<open>char\<close> per code point, so the
  model covers the texts whose code points are below 256. In that range the decimal
  digits of \<open>\d\<close> are \<open>0\<close> to \<open>9\<close>, and the white space of \<open>str.split()\<close> is the set
  listed in \<open>py_isspace\<close>.
\<close>

definition py_isspace :: "char \<Rightarrow> bool" where
  "py_isspace c = (c \<in> set [CHR 0x09, CHR 0x0A, CHR 0x0B, CHR 0x0C, CHR 0x0D,
     CHR 0x1C, CHR 0x1D, CHR 0x1E, CHR 0x1F, CHR 0x20, CHR 0x85, CHR 0xA0])"

text \<open>\<open>s.split()\<close>: the maximal runs of characters that are not white space.\<close>

fun split_aux :: "string \<Rightarrow> string \<Rightarrow> string list" where
  "split_aux w [] = (if w = [] then [] else [rev w])"
| "split_aux w (c # cs) =
     (if py_isspace c then (if w = [] then [] else [rev w]) @ split_aux [] cs
      else split_aux (c # w) cs)"

definition py_split :: "string \<Rightarrow> string list" where
  "py_split s = split_aux [] s"

text \<open>\<open>sep.join(xs)\<close>.\<close>

fun py_join :: "string \<Rightarrow> string list \<Rightarrow> string" where
  "py_join sep [] = []"
| "py_join sep [x] = x"
| "py_join sep (x # y # ys) = x @ sep @ py_join sep (y # ys)"

text \<open>
  \<open>s.replace(old, new)\<close>: every occurrence of \<open>old\<close>, found from left to right without
  overlap; an empty \<open>old\<close> matches before every character and at the end.
\<close>

fun replace_aux :: "string \<Rightarrow> string \<Rightarrow> nat \<Rightarrow> string \<Rightarrow> string" where
  "replace_aux old new skip [] = []"
| "replace_aux old new skip (c # cs) =
     (if 0 < skip then replace_aux old new (skip - 1) cs
      else if prefix old (c # cs) then new @ replace_aux old new (length old - 1) cs
      else c # replace_aux old new 0 cs)"

definition py_replace :: "string \<Rightarrow> string \<Rightarrow> string \<Rightarrow> string" where
  "py_replace old new s =
     (if old = [] then new @ concat (map (\<lambda>c. c # new) s) else replace_aux old new 0 s)"

text \<open>\<open>'%d' % n\<close> and \<open>'%s' % n\<close> for an integer \<open>n\<close>: its decimal numeral.\<close>

function show_nat :: "nat \<Rightarrow> string" where
  "show_nat n =
     (if n < 10 then [''0123456789'' ! n]
      else show_nat (n div 10) @ [''0123456789'' ! (n mod 10)])"
  by pat_completeness auto
termination
  by (relation "measure (\<lambda>n. n)") auto

definition show_int :: "int \<Rightarrow> string" where
  "show_int i = (if i < 0 then CHR ''-'' # show_nat (nat (- i)) else show_nat (nat i))"

text \<open>\<open>os.path.basename\<close> and \<open>os.path.join\<close> of two components, on POSIX.\<close>

definition basename :: "string \<Rightarrow> string" where
  "basename p = rev (takeWhile (\<lambda>c. c \<noteq> CHR ''/'') (rev p))"

definition path_join :: "string \<Rightarrow> string \<Rightarrow> string" where
  "path_join a b =
     (if prefix ''/'' b then b
      else if a = [] \<or> suffix ''/'' a then a @ b
      else a @ ''/'' @ b)"

section \<open>The regular expressions of the program\<close>

text \<open>
  Every pattern of the program is a sequence of literals and of repetitions of one
  character class, lazy or greedy. \<open>match_here\<close> is Python's backtracking matcher on
  such sequences: it tries the alternatives in Python's order and answers the first
  success, with the text of each repetition (in the pattern's order) and the rest of the
  subject after the match.
\<close>

datatype cls = Digit | Dot | DotAll

datatype item = Lit string | Rep cls nat bool

fun cls_ok :: "cls \<Rightarrow> char \<Rightarrow> bool" where
  "cls_ok Digit c = (c \<in> set ''0123456789'')"
| "cls_ok Dot c = (c \<noteq> CHR 0x0A)"
| "cls_ok DotAll c = True"

function match_here :: "item list \<Rightarrow> string \<Rightarrow> (string list \<times> string) option"
  and rep_lazy :: "cls \<Rightarrow> nat \<Rightarrow> item list \<Rightarrow> string \<Rightarrow> string \<Rightarrow> (string list \<times> string) option"
  and rep_greedy :: "cls \<Rightarrow> nat \<Rightarrow> item list \<Rightarrow> string \<Rightarrow> string \<Rightarrow> (string list \<times> string) option"
where
  "match_here [] s = Some ([], s)"
| "match_here (Lit l # p) s =
     (if prefix l s then match_here p (drop (length l) s) else None)"
| "match_here (Rep c k lazy # p) s =
     (if lazy then rep_lazy c k p [] s else rep_greedy c k p [] s)"
| "rep_lazy c k p acc [] =
     (case (if k \<le> length acc then match_here p [] else None) of
        Some (gs, r) \<Rightarrow> Some (rev acc # gs, r)
      | None \<Rightarrow> None)"
| "rep_lazy c k p acc (x # xs) =
     (case (if k \<le> length acc then match_here p (x # xs) else None) of
        Some (gs, r) \<Rightarrow> Some (rev acc # gs, r)
      | None \<Rightarrow> (if cls_ok c x then rep_lazy c k p (x # acc) xs else None))"
| "rep_greedy c k p acc [] =
     (case (if k \<le> length acc then match_here p [] else None) of
        Some (gs, r) \<Rightarrow> Some (rev acc # gs, r)
      | None \<Rightarrow> None)"
| "rep_greedy c k p acc (x # xs) =
     (case (if cls_ok c x then rep_greedy c k p (x # acc) xs else None) of
        Some res \<Rightarrow> Some res
      | None \<Rightarrow>
          (case (if k \<le> length acc then match_here p (x # xs) else None) of
             Some (gs, r) \<Rightarrow> Some (rev acc # gs, r)
           | None \<Rightarrow> None))"
  by pat_completeness auto
termination
  by (relation "measures
        [\<lambda>x. case x of Inl (p, s) \<Rightarrow> 2 * length p
             | Inr (Inl (c, k, p, acc, s)) \<Rightarrow> 2 * length p + 1
             | Inr (Inr (c, k, p, acc, s)) \<Rightarrow> 2 * length p + 1,
         \<lambda>x. case x of Inl (p, s) \<Rightarrow> length s
             | Inr (Inl (c, k, p, acc, s)) \<Rightarrow> length s
             | Inr (Inr (c, k, p, acc, s)) \<Rightarrow> length s]") auto

text \<open>
  \<open>re.search\<close>: the match at the leftmost position that has one, as the text before the
  match, the repetitions' texts and the rest after the match.
\<close>

fun re_search :: "item list \<Rightarrow> string \<Rightarrow> (string \<times> string list \<times> string) option" where
  "re_search p [] =
     (case match_here p [] of Some (gs, r) \<Rightarrow> Some ([], gs, r) | None \<Rightarrow> None)"
| "re_search p (c # cs) =
     (case match_here p (c # cs) of
        Some (gs, r) \<Rightarrow> Some ([], gs, r)
      | None \<Rightarrow>
          (case re_search p cs of
             Some (pre, gs, r) \<Rightarrow> Some (c # pre, gs, r)
           | None \<Rightarrow> None))"

text \<open>
  \<open>re.findall\<close>: the matches from left to right without overlap, each as the
  repetitions' texts and the whole matched text. \<open>skip\<close> counts the characters of the
  last match that are still to be passed.
\<close>

fun findall_aux :: "item list \<Rightarrow> nat \<Rightarrow> string \<Rightarrow> (string list \<times> string) list" where
  "findall_aux p skip [] =
     (if 0 < skip then []
      else case match_here p [] of Some (gs, r) \<Rightarrow> [(gs, [])] | None \<Rightarrow> [])"
| "findall_aux p skip (c # cs) =
     (if 0 < skip then findall_aux p (skip - 1) cs
      else case match_here p (c # cs) of
             Some (gs, r) \<Rightarrow>
               (gs, take (Suc (length cs) - length r) (c # cs))
                 # findall_aux p (length cs - length r) cs
           | None \<Rightarrow> findall_aux p 0 cs)"

definition re_findall :: "item list \<Rightarrow> string \<Rightarrow> (string list \<times> string) list" where
  "re_findall p s = findall_aux p 0 s"

text \<open>The patterns, in the order of their first use in the source.\<close>

definition re_img :: "item list" where
  \<comment> \<open>\<^verbatim>\<open><img(.*?)\/>\<close>\<close>
  "re_img = [Lit ''<img'', Rep Dot 0 True, Lit ''/>'']"

definition re_src :: "item list" where
  \<comment> \<open>\<^verbatim>\<open>src="(.*?)"\<close>\<close>
  "re_src = [Lit (''src='' @ [CHR 0x22]), Rep Dot 0 True, Lit [CHR 0x22]]"

definition re_alt :: "item list" where
  \<comment> \<open>\<^verbatim>\<open>alt="(.*?)"\<close>\<close>
  "re_alt = [Lit (''alt='' @ [CHR 0x22]), Rep Dot 0 True, Lit [CHR 0x22]]"

definition re_http :: "item list" where
  \<comment> \<open>\<^verbatim>\<open>http.*\<close>\<close>
  "re_http = [Lit ''http'', Rep Dot 0 False]"

definition re_header :: "item list" where
  \<comment> \<open>\<^verbatim>\<open><h\d+>(.*?)</h\d+>\<close> with \<open>re.DOTALL\<close>\<close>
  "re_header = [Lit ''<h'', Rep Digit 1 False, Lit ''>'', Rep DotAll 0 True,
                Lit ''</h'', Rep Digit 1 False, Lit ''>'']"

definition re_link :: "item list" where
  \<comment> \<open>\<^verbatim>\<open><a href="#.+?">.+?</a>\<close>, and with its two groups \<^verbatim>\<open><a href="(#.+?)">(.+?)</a>\<close>\<close>
  "re_link = [Lit (''<a href='' @ [CHR 0x22] @ ''#''), Rep Dot 1 True,
              Lit ([CHR 0x22] @ ''>''), Rep Dot 1 True, Lit ''</a>'']"

section \<open>The remote service and the run's trace\<close>

text \<open>
  The four JSON bodies the program sends. Fields that are constant in the source
  (\<open>type\<close>, \<open>representation\<close>, \<open>minorEdit\<close>) are left out; an ancestor
  \<open>{'type': 'page', 'id': i}\<close> is its id; \<open>pj_labels\<close> is \<open>None\<close> when the body has no
  \<open>metadata\<close>.
\<close>

record new_page =
  np_title :: string
  np_space_key :: string
  np_body :: string
  np_ancestors :: "string list"
  np_editor :: string

record page_json =
  pj_id :: string
  pj_title :: string
  pj_space_key :: string
  pj_body :: string
  pj_version :: int
  pj_ancestors :: "string list"
  pj_labels :: "string list option"

record prop_json =
  pr_key :: string
  pr_version :: int
  pr_value :: string

record file_to_upload =
  fu_comment :: string
  fu_filename :: string
  fu_content_type :: "string option"

datatype request =
    GET string
  | POST_page string new_page
  | PUT_page string page_json
  | PUT_property string prop_json
  | DELETE string
  | POST_files string file_to_upload

text \<open>
  What the service answers: a status code and the decoded JSON. A page of a title
  lookup carries its id, version number, \<open>_links.webui\<close> and, when the answer has
  \<open>metadata.properties\<close>, the version number of each property in it.
\<close>

record result_page =
  rp_id :: string
  rp_version :: int
  rp_webui :: string
  rp_properties :: "(string \<rightharpoonup> int) option"

datatype payload =
    NoData
  | Results "result_page list"
  | AttachmentResults "string list"
  | PageData string string int string

record response =
  status_code :: int
  data :: payload

text \<open>
  The trace of a run: the HTTP requests, the calls of \<open>LOGGER.error\<close> and
  \<open>LOGGER.warning\<close> (by their format string) and the calls of \<open>webbrowser.open\<close>.
  Calls of \<open>LOGGER.info\<close> and \<open>LOGGER.debug\<close> are not recorded.
\<close>

datatype event =
    Call request
  | LogError string
  | LogWarning string
  | Browser string

text \<open>
  A run stops by \<open>sys.exit\<close> or by an exception nobody catches; until then it
  returns values.
\<close>

datatype exn = HTTPError | KeyError | AttributeError | UnboundLocalError | NameError

datatype stop = SysExit int | Uncaught exn

type_synonym 'a run = "event list \<times> (stop + 'a)"

text \<open>
  The world outside the program: the service, which answers a request knowing the trace
  so far; the file system (\<open>os.path.isfile\<close>, and the directory of the markdown file);
  and the library functions \<open>mimetypes.guess_type\<close>, \<open>urllib.parse.quote_plus\<close>.
\<close>

record world =
  server :: "event list \<Rightarrow> request \<Rightarrow> response"
  isfile :: "string \<Rightarrow> bool"
  source_folder :: string
  guess_type :: "string \<Rightarrow> string option"
  quote_plus :: "string \<Rightarrow> string"

definition send :: "world \<Rightarrow> request \<Rightarrow> event list \<Rightarrow> event list \<times> response" where
  "send w rq tr = (tr @ [Call rq], server w tr rq)"

text \<open>\<open>response.raise_for_status()\<close> raises for the codes 400 to 599.\<close>

definition http_error :: "response \<Rightarrow> bool" where
  "http_error r = (400 \<le> status_code r \<and> status_code r < 600)"

section \<open>Module globals\<close>

record args =
  arg_markdownFile :: string
  arg_spacekey :: "string option"
  arg_username :: "string option"
  arg_apikey :: "string option"
  arg_orgname :: "string option"
  arg_ancestor :: "string option"
  arg_attachment :: "string list option"
  arg_contents :: bool
  arg_nogo :: bool
  arg_nossl :: bool
  arg_delete :: bool
  arg_loglevel :: string
  arg_simulate :: bool
  arg_version :: int
  arg_markdownsrc :: string
  arg_labels :: "string list"
  arg_properties :: "string list list"
  arg_sha_tag :: "string option"
  arg_scm_prefix :: "string option"

record globals =
  MARKDOWN_FILE :: string
  SPACE_KEY :: string
  USERNAME :: string
  API_KEY :: string
  ORGNAME :: string
  ANCESTOR :: "string option"
  NOSSL :: bool
  DELETE_flag :: bool
  SIMULATE :: bool
  VERSION :: int
  MARKDOWN_SOURCE :: string
  LABELS :: "string list"
  PROPERTIES :: "(string \<times> string) list"
  ATTACHMENTS :: "string list option"
  GO_TO_PAGE :: bool
  CONTENTS :: bool
  SHA_TAG :: "string option"
  SCM_PREFIX :: "string option"
  CONFLUENCE_API_URL :: string

text \<open>\<open>os.getenv(name, default)\<close>.\<close>

definition getenv :: "(string \<rightharpoonup> string) \<Rightarrow> string \<Rightarrow> string option \<Rightarrow> string option" where
  "getenv env name dflt = (case env name of Some v \<Rightarrow> Some v | None \<Rightarrow> dflt)"

text \<open>
  \<open>dict(ARGS.properties)\<close>, each element being the list \<open>kv.split("=")\<close>: a dictionary
  in insertion order, as an association list; \<open>None\<close> is the \<open>ValueError\<close> for an
  element that is not a pair.
\<close>

fun py_dict :: "(string \<times> string) list \<Rightarrow> string list list \<Rightarrow> (string \<times> string) list option" where
  "py_dict acc [] = Some acc"
| "py_dict acc (kv # rest) =
     (case kv of [k, v] \<Rightarrow> py_dict (AList.update k v acc) rest | _ \<Rightarrow> None)"

text \<open>
  The assignment of the globals at import time. \<open>level_ok\<close> says whether
  \<open>LOGGER.setLevel(getattr(logging, name, None))\<close> returns for the upper-cased name,
  \<open>path_exists\<close> is \<open>os.path.exists\<close>. An exception inside the \<open>try\<close> is logged twice
  and exits with 1; \<open>sys.exit\<close> is not caught by \<open>except Exception\<close>.
\<close>

definition failed_args :: "globals run" where
  "failed_args =
     ([LogError ''\<newline>\<newline>Exception caught:\<newline>%s '',
       LogError ''\<newline>Failed to process command line arguments. Exiting.''],
      Inl (SysExit 1))"

definition assign_globals ::
  "(string \<rightharpoonup> string) \<Rightarrow> (string \<Rightarrow> bool) \<Rightarrow> (string \<Rightarrow> bool) \<Rightarrow> args \<Rightarrow> globals run" where
  "assign_globals env level_ok path_exists ARGS =
     (if \<not> level_ok (arg_loglevel ARGS) then failed_args
      else
        let username = getenv env ''CONFLUENCE_USERNAME'' (arg_username ARGS);
            api_key = getenv env ''CONFLUENCE_API_KEY'' (arg_apikey ARGS);
            orgname = getenv env ''CONFLUENCE_ORGNAME'' (arg_orgname ARGS)
        in case py_dict [] (arg_properties ARGS) of
             None \<Rightarrow> failed_args
           | Some properties \<Rightarrow>
        (case username of
           None \<Rightarrow>
             ([LogError ''Error: Username not specified by environment variable or option.''],
              Inl (SysExit 1))
         | Some user \<Rightarrow>
        (case api_key of
           None \<Rightarrow>
             ([LogError ''Error: API key not specified by environment variable or option.''],
              Inl (SysExit 1))
         | Some key \<Rightarrow>
        if \<not> path_exists (arg_markdownFile ARGS) then
          ([LogError ''Error: Markdown file: %s does not exist.''], Inl (SysExit 1))
        else
          let space_key = (case arg_spacekey ARGS of None \<Rightarrow> ''~'' @ user | Some k \<Rightarrow> k)
          in case orgname of
               None \<Rightarrow>
                 ([LogError ''Error: Org Name not specified by environment variable or option.''],
                  Inl (SysExit 1))
             | Some org \<Rightarrow>
                 let url = (if CHR ''.'' \<in> set org then ''https://'' @ org
                            else ''https://'' @ org @ ''.atlassian.net/wiki'');
                     discarded = (if arg_nossl ARGS
                                  then py_replace ''https://'' ''http://'' url else url)
                 in ([], Inr \<lparr>MARKDOWN_FILE = arg_markdownFile ARGS,
                       SPACE_KEY = space_key,
                       USERNAME = user,
                       API_KEY = key,
                       ORGNAME = org,
                       ANCESTOR = arg_ancestor ARGS,
                       NOSSL = arg_nossl ARGS,
                       DELETE_flag = arg_delete ARGS,
                       SIMULATE = arg_simulate ARGS,
                       VERSION = arg_version ARGS,
                       MARKDOWN_SOURCE = arg_markdownsrc ARGS,
                       LABELS = arg_labels ARGS,
                       PROPERTIES = properties,
                       ATTACHMENTS = arg_attachment ARGS,
                       GO_TO_PAGE = (\<not> arg_nogo ARGS),
                       CONTENTS = arg_contents ARGS,
                       SHA_TAG = arg_sha_tag ARGS,
                       SCM_PREFIX = arg_scm_prefix ARGS,
                       CONFLUENCE_API_URL = url\<rparr>))))"

section \<open>Looking a page up\<close>

text \<open>The named tuple \<open>PageInfo\<close>.\<close>

record page_info =
  pi_id :: string
  pi_version :: int
  pi_link :: string
  pi_properties :: "string \<rightharpoonup> int"

text \<open>The text of the \<open>n\<close>-th repetition of a match (empty when there is none).\<close>

definition grp :: "nat \<Rightarrow> string list \<Rightarrow> string" where
  "grp n gs = concat (take 1 (drop n gs))"

text \<open>
  \<open>get_page\<close> answers \<open>False\<close> (here \<open>None\<close>) when the lookup has no result, and
  exits with 1 on an HTTP error. An answer of another shape than a result list is the
  \<open>KeyError\<close> of \<open>data['results']\<close>.
\<close>

definition get_page :: "world \<Rightarrow> globals \<Rightarrow> string \<Rightarrow> event list \<Rightarrow> page_info option run" where
  "get_page w g title tr =
     (let url0 = CONFLUENCE_API_URL g @ ''/rest/api/content?title='' @ quote_plus w title
                   @ ''&spaceKey='' @ SPACE_KEY g @ ''&expand=version,ancestors'';
          url = (if PROPERTIES g \<noteq> []
                 then url0 @ '','' @
                   py_join '','' (map (\<lambda>v. ''metadata.properties.'' @ v) (map fst (PROPERTIES g)))
                 else url0)
      in case send w (GET url) tr of (tr1, response) \<Rightarrow>
        if http_error response then
          (tr1 @ [LogError ''err.response: %s''] @
             (if status_code response = 404
              then [LogError ''Error: Page not found. Check the following are correct:'',
                    LogError (CHR 0x09 # ''Space Key : %s''),
                    LogError (CHR 0x09 # ''Organisation Name: %s'')]
              else [LogError ''Error: %d - %s'']),
           Inl (SysExit 1))
        else
          (case data response of
             Results rs \<Rightarrow>
               (case rs of
                  [] \<Rightarrow> (tr1, Inr None)
                | r # _ \<Rightarrow>
                    (tr1, Inr (Some \<lparr>pi_id = rp_id r,
                       pi_version = rp_version r,
                       pi_link = CONFLUENCE_API_URL g @ rp_webui r,
                       pi_properties =
                         (case rp_properties r of None \<Rightarrow> Map.empty | Some m \<Rightarrow> m)\<rparr>)))
           | _ \<Rightarrow> (tr1, Inl (Uncaught KeyError))))"

section \<open>Attachments\<close>

definition get_attachment ::
  "world \<Rightarrow> globals \<Rightarrow> string \<Rightarrow> string \<Rightarrow> event list \<Rightarrow> string option run" where
  "get_attachment w g page_id filename tr =
     (let url = CONFLUENCE_API_URL g @ ''/rest/api/content/'' @ page_id
                  @ ''/child/attachment?filename='' @ filename
      in case send w (GET url) tr of (tr1, response) \<Rightarrow>
        if http_error response then (tr1, Inl (Uncaught HTTPError))
        else
          (case data response of
             AttachmentResults ids \<Rightarrow>
               (case ids of [] \<Rightarrow> (tr1, Inr None) | att_id # _ \<Rightarrow> (tr1, Inr (Some att_id)))
           | _ \<Rightarrow> (tr1, Inl (Uncaught KeyError))))"

text \<open>
  \<open>upload_attachment\<close>: the guard \<open>re.search('http.*', file)\<close> first, then the test that
  the file is there, then the lookup and the upload.
\<close>

definition upload_attachment ::
  "world \<Rightarrow> globals \<Rightarrow> string \<Rightarrow> string \<Rightarrow> string \<Rightarrow> event list \<Rightarrow> bool run" where
  "upload_attachment w g page_id file comment tr =
     (if re_search re_http file \<noteq> None then (tr, Inr False)
      else
        let content_type = guess_type w file;
            filename = basename file
        in if \<not> isfile w file then
             (tr @ [LogError ''File %s cannot be found --> skip ''], Inr False)
           else
             (case get_attachment w g page_id filename tr of
                (tr1, Inl e) \<Rightarrow> (tr1, Inl e)
              | (tr1, Inr attachment) \<Rightarrow>
                  let url = (case attachment of
                               Some att_id \<Rightarrow>
                                 CONFLUENCE_API_URL g @ ''/rest/api/content/'' @ page_id
                                   @ ''/child/attachment/'' @ att_id @ ''/data''
                             | None \<Rightarrow>
                                 CONFLUENCE_API_URL g @ ''/rest/api/content/'' @ page_id
                                   @ ''/child/attachment/'')
                  in case send w (POST_files url
                         \<lparr>fu_comment = comment, fu_filename = filename,
                          fu_content_type = content_type\<rparr>) tr1 of
                       (tr2, response) \<Rightarrow>
                         if http_error response then (tr2, Inl (Uncaught HTTPError))
                         else (tr2, Inr True)))"

text \<open>
  \<open>add_images\<close>: the loop over the tags found in the html it was given; \<open>.group(1)\<close> of
  a search that found nothing is the \<open>AttributeError\<close>.
\<close>

fun add_images_loop ::
  "world \<Rightarrow> globals \<Rightarrow> string \<Rightarrow> string list \<Rightarrow> string \<Rightarrow> event list \<Rightarrow> string run" where
  "add_images_loop w g page_id [] html tr = (tr, Inr html)"
| "add_images_loop w g page_id (tag # tags) html tr =
     (case re_search re_src tag of
        None \<Rightarrow> (tr, Inl (Uncaught AttributeError))
      | Some (_, gs1, _) \<Rightarrow>
     (case re_search re_alt tag of
        None \<Rightarrow> (tr, Inl (Uncaught AttributeError))
      | Some (_, gs2, _) \<Rightarrow>
          let rel_path = grp 0 gs1;
              alt_text = grp 0 gs2;
              abs_path = path_join (source_folder w) rel_path;
              base = basename rel_path
          in case upload_attachment w g page_id abs_path alt_text tr of
               (tr1, Inl e) \<Rightarrow> (tr1, Inl e)
             | (tr1, Inr _) \<Rightarrow>
                 add_images_loop w g page_id tags
                   (if re_search re_http rel_path = None then
                      (if suffix ''/wiki'' (CONFLUENCE_API_URL g)
                       then py_replace rel_path
                              (''/wiki/download/attachments/'' @ page_id @ ''/'' @ base) html
                       else py_replace rel_path
                              (''/download/attachments/'' @ page_id @ ''/'' @ base) html)
                    else html)
                   tr1))"

definition add_images :: "world \<Rightarrow> globals \<Rightarrow> string \<Rightarrow> string \<Rightarrow> event list \<Rightarrow> string run" where
  "add_images w g page_id html tr =
     add_images_loop w g page_id (map (\<lambda>(gs, m). grp 0 gs) (re_findall re_img html)) html tr"

fun add_attachments_loop ::
  "world \<Rightarrow> globals \<Rightarrow> string \<Rightarrow> string list \<Rightarrow> event list \<Rightarrow> unit run" where
  "add_attachments_loop w g page_id [] tr = (tr, Inr ())"
| "add_attachments_loop w g page_id (file # files) tr =
     (case upload_attachment w g page_id (path_join (source_folder w) file) [] tr of
        (tr1, Inl e) \<Rightarrow> (tr1, Inl e)
      | (tr1, Inr _) \<Rightarrow> add_attachments_loop w g page_id files tr1)"

definition add_attachments ::
  "world \<Rightarrow> globals \<Rightarrow> string \<Rightarrow> string list option \<Rightarrow> event list \<Rightarrow> unit run" where
  "add_attachments w g page_id files tr =
     (case files of
        None \<Rightarrow> (tr, Inr ())
      | Some fs \<Rightarrow> add_attachments_loop w g page_id fs tr)"

section \<open>Local references\<close>

definition ref_prefixes :: "(string \<times> string) list" where
  "ref_prefixes = [(''bitbucket'', ''#markdown-header-'')]"

definition ref_postfixes :: "(string \<times> string) list" where
  "ref_postfixes = [(''bitbucket'', ''_%d'')]"

text \<open>\<open>fmt % n\<close> for a format with the one directive \<open>%d\<close>.\<close>

definition format_d :: "string \<Rightarrow> int \<Rightarrow> string" where
  "format_d fmt n = py_replace ''%d'' (show_int n) fmt"

text \<open>
  The global name \<open>slug\<close>. \<open>add_local_refs\<close> calls it at lines 271 and 276, but the
  file neither defines a function of that name nor imports one (\<open>import convert\<close> binds
  the name \<open>convert\<close> only). The name is bound to nothing, and evaluating it raises
  \<open>NameError\<close>.
\<close>

definition slug :: "(string \<Rightarrow> bool \<Rightarrow> string) option" where
  "slug = None"

text \<open>
  The local variable \<open>value\<close> of the loop over the headers: it is bound only when
  \<open>VERSION\<close> is 1 or 2. \<open>slug_fn\<close> is what the name \<open>slug\<close> was found bound to at
  line 271.
\<close>

definition header_value :: "globals \<Rightarrow> (string \<Rightarrow> bool \<Rightarrow> string) \<Rightarrow> string \<Rightarrow> string option" where
  "header_value g slug_fn header =
     (let value1 = (if VERSION g = 1 then Some (concat (py_split header)) else None)
      in if VERSION g = 2 then Some (slug_fn header False) else value1)"

text \<open>
  The body of the loop over the headers, on the two dictionaries \<open>headers_map\<close> and
  \<open>headers_count\<close>. Its first statement looks the name \<open>slug\<close> up, which is the
  \<open>NameError\<close>. Reading \<open>headers_count[key]\<close> for a key that is not there is the
  \<open>KeyError\<close>; using \<open>value\<close> unbound is the \<open>UnboundLocalError\<close>.
\<close>

definition header_step ::
  "globals \<Rightarrow> string \<Rightarrow> string \<Rightarrow> string \<Rightarrow>
   (string \<rightharpoonup> string) \<times> (string \<rightharpoonup> int) \<Rightarrow> exn + (string \<rightharpoonup> string) \<times> (string \<rightharpoonup> int)" where
  "header_step g ref_prefix ref_postfix header st =
     (case st of (headers_map, headers_count) \<Rightarrow>
      (case slug of
         None \<Rightarrow> Inl NameError
       | Some slug_fn \<Rightarrow>
        let key = ref_prefix @ slug_fn header True;
            value = header_value g slug_fn header
        in if headers_map key \<noteq> None then
             (case headers_count key of
                None \<Rightarrow> Inl KeyError
              | Some alt_count \<Rightarrow>
                  (case value of
                     None \<Rightarrow> Inl UnboundLocalError
                   | Some v \<Rightarrow>
                       let alt_key = key @ format_d ref_postfix alt_count;
                           alt_value = v @ ''.'' @ show_int alt_count
                       in Inr (headers_map(alt_key \<mapsto> alt_value),
                               headers_count(key \<mapsto> alt_count + 1))))
           else
             (case value of
                None \<Rightarrow> Inl UnboundLocalError
              | Some v \<Rightarrow> Inr (headers_map(key \<mapsto> v), headers_count(key \<mapsto> 1)))))"

fun headers_loop ::
  "globals \<Rightarrow> string \<Rightarrow> string \<Rightarrow> string list \<Rightarrow>
   (string \<rightharpoonup> string) \<times> (string \<rightharpoonup> int) \<Rightarrow> exn + (string \<rightharpoonup> string) \<times> (string \<rightharpoonup> int)" where
  "headers_loop g ref_prefix ref_postfix [] st = Inr st"
| "headers_loop g ref_prefix ref_postfix (header # headers) st =
     (case header_step g ref_prefix ref_postfix header st of
        Inl e \<Rightarrow> Inl e
      | Inr st' \<Rightarrow> headers_loop g ref_prefix ref_postfix headers st')"

text \<open>
  The loop over the links: \<open>ref\<close> is the first group, with its \<open>#\<close>, and \<open>alt\<close> the
  second; \<open>headers_map[ref]\<close> for a reference that is not there is the \<open>KeyError\<close>.
\<close>

fun links_loop ::
  "globals \<Rightarrow> string \<Rightarrow> string \<Rightarrow> (string \<rightharpoonup> string) \<Rightarrow> string list \<Rightarrow> string \<Rightarrow> exn + string" where
  "links_loop g page_id title headers_map [] html = Inr html"
| "links_loop g page_id title headers_map (link # links) html =
     (case re_search re_link link of
        None \<Rightarrow> Inl AttributeError
      | Some (_, gs, _) \<Rightarrow>
          let ref = ''#'' @ grp 0 gs;
              alt = grp 1 gs
          in case headers_map ref of
               None \<Rightarrow> Inl KeyError
             | Some result_ref \<Rightarrow>
                 if result_ref \<noteq> [] then
                   let base_uri = CONFLUENCE_API_URL g @ ''/spaces/'' @ SPACE_KEY g
                                    @ ''/pages/'' @ page_id @ ''/'' @ py_join ''+'' (py_split title);
                       uri1 = (if VERSION g = 1
                               then Some (base_uri @ ''#'' @ concat (py_split title) @ ''-'' @ result_ref)
                               else None);
                       replacement_uri = (if VERSION g = 2
                                          then Some (base_uri @ ''#'' @ result_ref) else uri1)
                   in case replacement_uri of
                        None \<Rightarrow> Inl UnboundLocalError
                      | Some uri \<Rightarrow>
                          links_loop g page_id title headers_map links
                            (py_replace link
                               (''<a href='' @ [CHR 0x22] @ uri @ [CHR 0x22] @ '' title=''
                                  @ [CHR 0x22] @ alt @ [CHR 0x22] @ ''>'' @ alt @ ''</a>'') html)
                 else links_loop g page_id title headers_map links html)"

definition add_local_refs ::
  "globals \<Rightarrow> string \<Rightarrow> string \<Rightarrow> string \<Rightarrow> event list \<Rightarrow> string run" where
  "add_local_refs g page_id title html tr =
     (let unsupported =
            (tr @ [LogWarning (''Local references werent processed because ''
                     @ ''--markdownsrc wasnt set or specified source isnt supported'')],
             Inr html)
      in case map_of ref_prefixes (MARKDOWN_SOURCE g) of
           None \<Rightarrow> unsupported
         | Some ref_prefix \<Rightarrow>
        (case map_of ref_postfixes (MARKDOWN_SOURCE g) of
           None \<Rightarrow> unsupported
         | Some ref_postfix \<Rightarrow>
             let headers = map (\<lambda>(gs, m). grp 1 gs) (re_findall re_header html)
             in if headers \<noteq> [] then
                  (case headers_loop g ref_prefix ref_postfix headers (Map.empty, Map.empty) of
                     Inl e \<Rightarrow> (tr, Inl (Uncaught e))
                   | Inr (headers_map, headers_count) \<Rightarrow>
                       (case links_loop g page_id title headers_map
                               (map snd (re_findall re_link html)) html of
                          Inl e \<Rightarrow> (tr, Inl (Uncaught e))
                        | Inr html' \<Rightarrow> (tr, Inr html')))
                else (tr, Inr html)))"

section \<open>Updating, creating and deleting a page\<close>

fun put_properties ::
  "world \<Rightarrow> string \<Rightarrow> (string \<times> prop_json) list \<Rightarrow> event list \<Rightarrow> unit run" where
  "put_properties w url [] tr = (tr, Inr ())"
| "put_properties w url ((key, p) # properties) tr =
     (case send w (PUT_property (url @ ''/property/'' @ key)
             \<lparr>pr_key = key, pr_version = pr_version p, pr_value = pr_value p\<rparr>) tr of
        (tr1, response) \<Rightarrow>
          if http_error response then (tr1, Inl (Uncaught HTTPError))
          else put_properties w url properties tr1)"

definition update_page ::
  "world \<Rightarrow> globals \<Rightarrow> string \<Rightarrow> string \<Rightarrow> string \<Rightarrow> int \<Rightarrow> string list \<Rightarrow>
   (string \<times> prop_json) list \<Rightarrow> string list option \<Rightarrow> event list \<Rightarrow> unit run" where
  "update_page w g page_id title body version ancestors properties attachments tr =
     (case add_images w g page_id body tr of
        (tr1, Inl e) \<Rightarrow> (tr1, Inl e)
      | (tr1, Inr body1) \<Rightarrow>
     (case add_attachments w g page_id attachments tr1 of
        (tr2, Inl e) \<Rightarrow> (tr2, Inl e)
      | (tr2, Inr _) \<Rightarrow>
     (case add_local_refs g page_id title body1 tr2 of
        (tr3, Inl e) \<Rightarrow> (tr3, Inl e)
      | (tr3, Inr body2) \<Rightarrow>
          let url = CONFLUENCE_API_URL g @ ''/rest/api/content/'' @ page_id;
              page_json = \<lparr>pj_id = page_id, pj_title = title, pj_space_key = SPACE_KEY g,
                           pj_body = body2, pj_version = version + 1,
                           pj_ancestors = ancestors,
                           pj_labels = (if LABELS g \<noteq> [] then Some (LABELS g) else None)\<rparr>
          in case send w (PUT_page url page_json) tr3 of
               (tr4, response) \<Rightarrow>
                 if http_error response then (tr4, Inl (Uncaught HTTPError))
                 else if status_code response = 200 then
                   (case data response of
                      PageData _ _ _ webui \<Rightarrow>
                        (case (if properties \<noteq> [] then put_properties w url properties tr4
                               else (tr4, Inr ())) of
                           (tr5, Inl e) \<Rightarrow> (tr5, Inl e)
                         | (tr5, Inr _) \<Rightarrow>
                             if GO_TO_PAGE g
                             then (tr5 @ [Browser (CONFLUENCE_API_URL g @ webui)], Inr ())
                             else (tr5, Inr ()))
                    | _ \<Rightarrow> (tr4, Inl (Uncaught KeyError)))
                 else (tr4 @ [LogError ''Page could not be updated.''], Inr ()))))"

text \<open>The property dictionary of a new page: every configured property at version 1.\<close>

fun initial_properties ::
  "(string \<times> string) list \<Rightarrow> (string \<times> prop_json) list \<Rightarrow> (string \<times> prop_json) list" where
  "initial_properties [] properties = properties"
| "initial_properties ((key, v) # rest) properties =
     initial_properties rest
       (AList.update key \<lparr>pr_key = key, pr_version = 1, pr_value = v\<rparr> properties)"

definition create_page ::
  "world \<Rightarrow> globals \<Rightarrow> string \<Rightarrow> string \<Rightarrow> string list \<Rightarrow> event list \<Rightarrow> unit run" where
  "create_page w g title body ancestors tr =
     (let url = CONFLUENCE_API_URL g @ ''/rest/api/content/'';
          new_page = \<lparr>np_title = title, np_space_key = SPACE_KEY g, np_body = body,
                      np_ancestors = ancestors, np_editor = ''v'' @ show_int (VERSION g)\<rparr>
      in case send w (POST_page url new_page) tr of
           (tr1, response) \<Rightarrow>
             if http_error response then
               (tr1 @ [LogError ''error: %s - %s''], Inl (SysExit 1))
             else if status_code response = 200 then
               (case data response of
                  PageData space_name page_id version webui \<Rightarrow>
                    let properties = initial_properties (PROPERTIES g) [];
                        img_check = re_search re_img body;
                        local_ref_check = re_search re_link body
                    in if img_check \<noteq> None \<or> local_ref_check \<noteq> None \<or> properties \<noteq> []
                          \<or> (ATTACHMENTS g \<noteq> None \<and> ATTACHMENTS g \<noteq> Some [])
                          \<or> LABELS g \<noteq> []
                       then update_page w g page_id title body version ancestors properties
                              (ATTACHMENTS g) tr1
                       else if GO_TO_PAGE g
                       then (tr1 @ [Browser (CONFLUENCE_API_URL g @ webui)], Inr ())
                       else (tr1, Inr ())
                | _ \<Rightarrow> (tr1, Inl (Uncaught KeyError)))
             else (tr1 @ [LogError ''Could not create page.''], Inl (SysExit 1)))"

definition delete_page :: "world \<Rightarrow> globals \<Rightarrow> string \<Rightarrow> event list \<Rightarrow> unit run" where
  "delete_page w g page_id tr =
     (case send w (DELETE (CONFLUENCE_API_URL g @ ''/rest/api/content/'' @ page_id)) tr of
        (tr1, response) \<Rightarrow>
          if http_error response then (tr1, Inl (Uncaught HTTPError))
          else if status_code response = 204 then (tr1, Inr ())
          else (tr1 @ [LogError ''Page %s could not be deleted.''], Inr ()))"

section \<open>The main program\<close>

text \<open>
  The property dictionary for a page that exists: a configured property the page has is
  one above the page's version of it, one it does not have is at version 1.
\<close>

fun updated_properties ::
  "(string \<rightharpoonup> int) \<Rightarrow> (string \<times> string) list \<Rightarrow> (string \<times> prop_json) list \<Rightarrow>
   (string \<times> prop_json) list" where
  "updated_properties page_properties [] properties = properties"
| "updated_properties page_properties ((key, v) # rest) properties =
     updated_properties page_properties rest
       (AList.update key
          (case page_properties key of
             Some number \<Rightarrow> \<lparr>pr_key = key, pr_version = number + 1, pr_value = v\<rparr>
           | None \<Rightarrow> \<lparr>pr_key = key, pr_version = 1, pr_value = v\<rparr>)
          properties)"

text \<open>
  The ancestor list of \<open>main\<close> (the \<open>if ANCESTOR\<close> block): the id of the parent page,
  which must exist, or nothing when no ancestor is configured.
\<close>

definition main_ancestors :: "world \<Rightarrow> globals \<Rightarrow> event list \<Rightarrow> string list run" where
  "main_ancestors w g tr =
     (case ANCESTOR g of
        None \<Rightarrow> (tr, Inr [])
      | Some a \<Rightarrow>
          if a = [] then (tr, Inr [])
          else
            (case get_page w g a tr of
               (tr2, Inl e) \<Rightarrow> (tr2, Inl e)
             | (tr2, Inr None) \<Rightarrow>
                 (tr2 @ [LogError ''Error: Parent page does not exist: %s''], Inl (SysExit 1))
             | (tr2, Inr (Some parent_page)) \<Rightarrow> (tr2, Inr [pi_id parent_page])))"

text \<open>
  \<open>main\<close>, from the point where the title and the html are known: reading the file,
  the markdown library and the module \<open>convert\<close> are outside this file, so \<open>title\<close> and
  \<open>html\<close> (after \<open>add_header\<close>) are parameters.
\<close>

definition main :: "world \<Rightarrow> globals \<Rightarrow> string \<Rightarrow> string \<Rightarrow> event list \<Rightarrow> unit run" where
  "main w g title html tr =
     (if SIMULATE g then (tr, Inl (SysExit 0))
      else
        case get_page w g title tr of
          (tr1, Inl e) \<Rightarrow> (tr1, Inl e)
        | (tr1, Inr page) \<Rightarrow>
            (case (if DELETE_flag g then page else None) of
               Some p \<Rightarrow>
                 (case delete_page w g (pi_id p) tr1 of
                    (tr2, Inl e) \<Rightarrow> (tr2, Inl e)
                  | (tr2, Inr _) \<Rightarrow> (tr2, Inl (SysExit 1)))
             | None \<Rightarrow>
                 (case main_ancestors w g tr1 of
                    (tr3, Inl e) \<Rightarrow> (tr3, Inl e)
                  | (tr3, Inr ancestors) \<Rightarrow>
                      (case page of
                         Some p \<Rightarrow>
                           update_page w g (pi_id p) title html (pi_version p) ancestors
                             (updated_properties (pi_properties p) (PROPERTIES g) [])
                             (ATTACHMENTS g) tr3
                       | None \<Rightarrow> create_page w g title html ancestors tr3))))"

section \<open>Reading a trace\<close>

text \<open>The page updates, the property updates and the uploads of a trace, in order.\<close>

fun page_update_of :: "event \<Rightarrow> page_json list" where
  "page_update_of (Call (PUT_page url pj)) = [pj]"
| "page_update_of _ = []"

definition page_updates :: "event list \<Rightarrow> page_json list" where
  "page_updates tr = concat (map page_update_of tr)"

fun property_update_of :: "event \<Rightarrow> prop_json list" where
  "property_update_of (Call (PUT_property url p)) = [p]"
| "property_update_of _ = []"

definition property_updates :: "event list \<Rightarrow> prop_json list" where
  "property_updates tr = concat (map property_update_of tr)"

section \<open>Example inputs\<close>

text \<open>
  A service that answers every title lookup with the pages it is given and accepts
  everything else; a configuration with nothing optional set; a page at version 5 with
  one property at version 3.
\<close>

definition example_server :: "result_page list \<Rightarrow> event list \<Rightarrow> request \<Rightarrow> response" where
  "example_server pages tr rq =
     (case rq of
        GET url \<Rightarrow> \<lparr>status_code = 200, data = Results pages\<rparr>
      | POST_page url np \<Rightarrow> \<lparr>status_code = 200, data = PageData ''Space'' ''42'' 1 ''/p/42''\<rparr>
      | PUT_page url pj \<Rightarrow>
          \<lparr>status_code = 200, data = PageData ''Space'' (pj_id pj) (pj_version pj) ''/p''\<rparr>
      | PUT_property url p \<Rightarrow> \<lparr>status_code = 200, data = NoData\<rparr>
      | DELETE url \<Rightarrow> \<lparr>status_code = 204, data = NoData\<rparr>
      | POST_files url f \<Rightarrow> \<lparr>status_code = 200, data = NoData\<rparr>)"

definition example_world :: "result_page list \<Rightarrow> world" where
  "example_world pages =
     \<lparr>server = example_server pages,
      isfile = (\<lambda>p. p = ''/docs/http/logo.png''),
      source_folder = ''/docs'',
      guess_type = (\<lambda>p. None),
      quote_plus = (\<lambda>s. s)\<rparr>"

definition example_page :: result_page where
  "example_page =
     \<lparr>rp_id = ''7'', rp_version = 5, rp_webui = ''/p/7'',
      rp_properties = Some [''owner'' \<mapsto> 3]\<rparr>"

definition example_globals :: globals where
  "example_globals =
     \<lparr>MARKDOWN_FILE = ''doc.md'', SPACE_KEY = ''SP'', USERNAME = ''u'', API_KEY = ''k'',
      ORGNAME = ''org'', ANCESTOR = None, NOSSL = False, DELETE_flag = False,
      SIMULATE = False, VERSION = 1, MARKDOWN_SOURCE = [], LABELS = [], PROPERTIES = [],
      ATTACHMENTS = None, GO_TO_PAGE = False, CONTENTS = False, SHA_TAG = None,
      SCM_PREFIX = None, CONFLUENCE_API_URL = ''https://org.atlassian.net/wiki''\<rparr>"

definition example_args :: args where
  "example_args =
     \<lparr>arg_markdownFile = ''doc.md'', arg_spacekey = Some ''SP'',
      arg_username = Some ''flag-user'', arg_apikey = Some ''flag-key'',
      arg_orgname = Some ''flag-org'', arg_ancestor = None, arg_attachment = None,
      arg_contents = False, arg_nogo = True, arg_nossl = True, arg_delete = False,
      arg_loglevel = ''INFO'', arg_simulate = False, arg_version = 1,
      arg_markdownsrc = [], arg_labels = [], arg_properties = [],
      arg_sha_tag = None, arg_scm_prefix = None\<rparr>"

definition example_env :: "string \<rightharpoonup> string" where
  "example_env = [''CONFLUENCE_USERNAME'' \<mapsto> ''env-user'', ''CONFLUENCE_ORGNAME'' \<mapsto> ''env-org'']"

text \<open>
  The globals assigned from \<open>example_args\<close> under \<open>example_env\<close>: the user and the
  organisation of the environment, the API key of the command line.
\<close>

definition example_assigned :: globals where
  "example_assigned =
     example_globals\<lparr>USERNAME := ''env-user'', API_KEY := ''flag-key'', ORGNAME := ''env-org'',
       NOSSL := True, CONFLUENCE_API_URL := ''https://env-org.atlassian.net/wiki''\<rparr>"

text \<open>
  \<open>quiet tr tr'\<close>: the trace \<open>tr'\<close> continues \<open>tr\<close> by events among which there is no
  page update and no property update.
\<close>

definition quiet :: "event list \<Rightarrow> event list \<Rightarrow> bool" where
  "quiet tr tr' = (\<exists>ev. tr' = tr @ ev \<and> page_updates ev = [] \<and> property_updates ev = [])"

text \<open>The body of the request that \<open>update_page\<close> sends for an entry of its property dictionary.\<close>

definition sent_property :: "string \<times> prop_json \<Rightarrow> prop_json" where
  "sent_property kp =
     \<lparr>pr_key = fst kp, pr_version = pr_version (snd kp), pr_value = pr_value (snd kp)\<rparr>"

text \<open>What \<open>get_page\<close> makes of \<open>example_page\<close>, and a configuration with two properties.\<close>

definition example_page_info :: page_info where
  "example_page_info =
     \<lparr>pi_id = ''7'', pi_version = 5, pi_link = ''https://org.atlassian.net/wiki/p/7'',
      pi_properties = [''owner'' \<mapsto> 3]\<rparr>"

definition example_globals_properties :: globals where
  "example_globals_properties =
     example_globals\<lparr>PROPERTIES := [(''owner'', ''alice''), (''team'', ''docs'')]\<rparr>"

text \<open>
  The three passes of \<open>update_page\<close> before its request (\<open>add_images\<close>,
  \<open>add_attachments\<close>, \<open>add_local_refs\<close>), as one run that returns the body to send.
\<close>

definition update_passes ::
  "world \<Rightarrow> globals \<Rightarrow> string \<Rightarrow> string \<Rightarrow> string \<Rightarrow> string list option \<Rightarrow> event list \<Rightarrow> string run" where
  "update_passes w g page_id title body attachments tr =
     (case add_images w g page_id body tr of
        (tr1, Inl e) \<Rightarrow> (tr1, Inl e)
      | (tr1, Inr body1) \<Rightarrow>
     (case add_attachments w g page_id attachments tr1 of
        (tr2, Inl e) \<Rightarrow> (tr2, Inl e)
      | (tr2, Inr _) \<Rightarrow> add_local_refs g page_id title body1 tr2))"

text \<open>
  Two bodies for the local-reference pass: two headers of the same text, and a link to
  an anchor in a body without headers.
\<close>

definition example_headings_html :: string where
  "example_headings_html = ''<h1>Setup</h1><h2>Setup</h2>''"


definition example_globals_bitbucket :: globals where
  "example_globals_bitbucket = example_globals\<lparr>MARKDOWN_SOURCE := ''bitbucket''\<rparr>"

section \<open>Verified properties\<close>

subsection \<open>The guard of the uploader\<close>

lemma rep_greedy_last: "rep_greedy c 0 [] acc s \<noteq> None"
  by (induction s arbitrary: acc) (auto split: option.splits)

lemma match_http_iff: "match_here re_http s \<noteq> None \<longleftrightarrow> prefix ''http'' s"
  using rep_greedy_last by (auto simp: re_http_def)

lemma re_search_Cons_iff:
  "re_search p (c # cs) \<noteq> None \<longleftrightarrow> match_here p (c # cs) \<noteq> None \<or> re_search p cs \<noteq> None"
  by (auto split: option.splits)

text \<open>\<open>re.search('http.*', s)\<close> finds something exactly when \<open>http\<close> occurs in \<open>s\<close>.\<close>

lemma re_search_http_iff: "re_search re_http s \<noteq> None \<longleftrightarrow> sublist ''http'' s"
proof (induction s)
  case Nil
  show ?case by (simp add: re_http_def)
next
  case (Cons c cs)
  have "re_search re_http (c # cs) \<noteq> None \<longleftrightarrow>
          match_here re_http (c # cs) \<noteq> None \<or> re_search re_http cs \<noteq> None"
    by (rule re_search_Cons_iff)
  also have "\<dots> \<longleftrightarrow> prefix ''http'' (c # cs) \<or> sublist ''http'' cs"
    using Cons.IH match_http_iff [of "c # cs"] by simp
  also have "\<dots> \<longleftrightarrow> sublist ''http'' (c # cs)"
    by (simp add: sublist_Cons_right)
  finally show ?case .
qed

text \<open>
  C10. \<open>upload_attachment\<close> returns \<open>False\<close> and sends nothing for every path in which
  \<open>http\<close> occurs anywhere, whether or not the path names a file that is there: its guard
  searches the path for the substring and does not look at a URL scheme.
\<close>

theorem upload_attachment_http_anywhere:
  "sublist ''http'' file \<Longrightarrow> upload_attachment w g page_id file comment tr = (tr, Inr False)"
  using re_search_http_iff [of "file"] by (simp add: upload_attachment_def)

theorem upload_attachment_http_anywhere_witness:
  "sublist ''http'' ''/docs/http/logo.png''
   \<and> isfile (example_world []) ''/docs/http/logo.png''
   \<and> upload_attachment (example_world []) example_globals ''42'' ''/docs/http/logo.png'' [] []
       = ([], Inr False)"
proof -
  have h: "sublist ''http'' ''/docs/http/logo.png''"
    by (simp add: sublist_Cons_right)
  show ?thesis
    using h upload_attachment_http_anywhere [OF h, of "example_world []" example_globals "''42''" "[]" "[]"]
    by (simp add: example_world_def)
qed

subsection \<open>The globals\<close>

lemma example_assign:
  "assign_globals example_env (\<lambda>l. True) (\<lambda>p. True) example_args = ([], Inr example_assigned)"
  by (simp add: assign_globals_def example_env_def example_args_def example_assigned_def
        example_globals_def getenv_def Let_def)

text \<open>
  C9. The no-SSL toggle has no effect on the base URL: whenever the globals are
  assigned, \<open>CONFLUENCE_API_URL\<close> begins with \<open>https://\<close>, and setting or clearing the
  toggle changes nothing but the global \<open>NOSSL\<close> itself, because the result of the
  replacement is not assigned.
\<close>

theorem nossl_has_no_effect:
  assumes "assign_globals env level_ok path_exists ARGS = (tr, Inr g)"
  shows "prefix ''https://'' (CONFLUENCE_API_URL g)
         \<and> (\<forall>b. assign_globals env level_ok path_exists (ARGS\<lparr>arg_nossl := b\<rparr>)
                  = (tr, Inr (g\<lparr>NOSSL := b\<rparr>)))"
  using assms
  by (auto simp: assign_globals_def failed_args_def Let_def split: if_splits option.splits)

theorem nossl_has_no_effect_witness:
  "arg_nossl example_args
   \<and> assign_globals example_env (\<lambda>l. True) (\<lambda>p. True) example_args = ([], Inr example_assigned)
   \<and> prefix ''https://'' (CONFLUENCE_API_URL example_assigned)
   \<and> assign_globals example_env (\<lambda>l. True) (\<lambda>p. True) (example_args\<lparr>arg_nossl := False\<rparr>)
       = ([], Inr (example_assigned\<lparr>NOSSL := False\<rparr>))"
  using nossl_has_no_effect [OF example_assign] example_assign
  by (simp add: example_args_def)

text \<open>
  C7. For the user name, the API key and the organisation name alike: when the
  environment variable is set, its value is the global and the command-line flag has no
  effect on the assignment; the flag's value is the global only when the variable is
  not set.
\<close>

theorem environment_before_flag:
  assumes "assign_globals env level_ok path_exists ARGS = (tr, Inr g)"
  shows "(case env ''CONFLUENCE_USERNAME'' of
            Some v \<Rightarrow> USERNAME g = v \<and>
              (\<forall>f. assign_globals env level_ok path_exists (ARGS\<lparr>arg_username := f\<rparr>) = (tr, Inr g))
          | None \<Rightarrow> arg_username ARGS = Some (USERNAME g))
       \<and> (case env ''CONFLUENCE_API_KEY'' of
            Some v \<Rightarrow> API_KEY g = v \<and>
              (\<forall>f. assign_globals env level_ok path_exists (ARGS\<lparr>arg_apikey := f\<rparr>) = (tr, Inr g))
          | None \<Rightarrow> arg_apikey ARGS = Some (API_KEY g))
       \<and> (case env ''CONFLUENCE_ORGNAME'' of
            Some v \<Rightarrow> ORGNAME g = v \<and>
              (\<forall>f. assign_globals env level_ok path_exists (ARGS\<lparr>arg_orgname := f\<rparr>) = (tr, Inr g))
          | None \<Rightarrow> arg_orgname ARGS = Some (ORGNAME g))"
  using assms
  by (auto simp: assign_globals_def failed_args_def Let_def getenv_def split: if_splits option.splits)

theorem environment_before_flag_witness:
  "example_env ''CONFLUENCE_USERNAME'' = Some ''env-user''
   \<and> arg_username example_args = Some ''flag-user''
   \<and> example_env ''CONFLUENCE_API_KEY'' = None
   \<and> arg_apikey example_args = Some ''flag-key''
   \<and> assign_globals example_env (\<lambda>l. True) (\<lambda>p. True) example_args = ([], Inr example_assigned)
   \<and> USERNAME example_assigned = ''env-user''
   \<and> API_KEY example_assigned = ''flag-key''
   \<and> assign_globals example_env (\<lambda>l. True) (\<lambda>p. True) (example_args\<lparr>arg_username := None\<rparr>)
       = ([], Inr example_assigned)"
  using environment_before_flag [OF example_assign] example_assign
  by (simp add: example_args_def example_env_def example_assigned_def)

subsection \<open>Missing files\<close>

lemmas run_defs = main_def main_ancestors_def get_page_def create_page_def update_page_def delete_page_def
  add_images_def add_attachments_def add_local_refs_def upload_attachment_def get_attachment_def
  send_def http_error_def example_world_def example_server_def example_globals_def example_page_def
  re_findall_def re_img_def re_link_def re_header_def re_http_def re_src_def re_alt_def grp_def
  ref_prefixes_def ref_postfixes_def Let_def show_int_def path_join_def basename_def suffix_to_prefix

lemma upload_missing:
  assumes "\<not> sublist ''http'' file" and "\<not> isfile w file"
  shows "upload_attachment w g page_id file comment tr
           = (tr @ [LogError ''File %s cannot be found --> skip ''], Inr False)"
  using assms re_search_http_iff [of "file"] by (simp add: upload_attachment_def Let_def)

text \<open>
  C8, as the claim states it, fails: a path that is not on disk and in which \<open>http\<close>
  occurs is skipped by the first guard, and no error is logged for it.
\<close>

theorem missing_http_path_not_logged:
  "\<not> isfile (example_world []) ''/docs/http/gone.png''
   \<and> upload_attachment (example_world []) example_globals ''42'' ''/docs/http/gone.png'' [] []
       = ([], Inr False)"
  by (simp add: run_defs)

text \<open>
  C8, amended. For every upload whose path does not contain \<open>http\<close> and is not a file
  on disk, the uploader logs an error and returns \<open>False\<close> without sending anything, and
  the run goes on: the loop over the configured attachments and the loop over the image
  tags continue with the next element.
\<close>

theorem missing_file_logged_and_skipped:
  assumes "\<not> sublist ''http'' file" and "\<not> isfile w file"
  shows "upload_attachment w g page_id file comment tr
           = (tr @ [LogError ''File %s cannot be found --> skip ''], Inr False)
       \<and> (\<forall>f files. path_join (source_folder w) f = file \<longrightarrow>
            add_attachments_loop w g page_id (f # files) tr
              = add_attachments_loop w g page_id files
                  (tr @ [LogError ''File %s cannot be found --> skip '']))
       \<and> (\<forall>tag tags html a1 gs1 b1 a2 gs2 b2.
            re_search re_src tag = Some (a1, gs1, b1) \<longrightarrow>
            re_search re_alt tag = Some (a2, gs2, b2) \<longrightarrow>
            path_join (source_folder w) (grp 0 gs1) = file \<longrightarrow>
            (\<exists>html'. add_images_loop w g page_id (tag # tags) html tr
               = add_images_loop w g page_id tags html'
                   (tr @ [LogError ''File %s cannot be found --> skip ''])))"
proof (intro conjI allI impI)
  show "upload_attachment w g page_id file comment tr
          = (tr @ [LogError ''File %s cannot be found --> skip ''], Inr False)"
    by (rule upload_missing [OF assms])
next
  fix f files
  assume "path_join (source_folder w) f = file"
  then show "add_attachments_loop w g page_id (f # files) tr
               = add_attachments_loop w g page_id files
                   (tr @ [LogError ''File %s cannot be found --> skip ''])"
    by (simp add: upload_missing [OF assms])
next
  fix tag tags html a1 gs1 b1 a2 gs2 b2
  assume "re_search re_src tag = Some (a1, gs1, b1)"
    and "re_search re_alt tag = Some (a2, gs2, b2)"
    and "path_join (source_folder w) (grp 0 gs1) = file"
  then show "\<exists>html'. add_images_loop w g page_id (tag # tags) html tr
               = add_images_loop w g page_id tags html'
                   (tr @ [LogError ''File %s cannot be found --> skip ''])"
    by (auto simp: upload_missing [OF assms] Let_def)
qed

theorem missing_file_logged_and_skipped_witness:
  "\<not> sublist ''http'' ''/docs/a.png'' \<and> \<not> isfile (example_world []) ''/docs/a.png''
   \<and> upload_attachment (example_world []) example_globals ''42'' ''/docs/a.png'' [] []
        = ([LogError ''File %s cannot be found --> skip ''], Inr False)
   \<and> add_attachments_loop (example_world []) example_globals ''42'' [''a.png'', ''b.png''] []
        = add_attachments_loop (example_world []) example_globals ''42'' [''b.png'']
            [LogError ''File %s cannot be found --> skip '']
   \<and> add_attachments_loop (example_world []) example_globals ''42'' [''a.png'', ''b.png''] []
        = ([LogError ''File %s cannot be found --> skip '',
            LogError ''File %s cannot be found --> skip ''], Inr ())"
proof -
  have h1: "\<not> sublist ''http'' ''/docs/a.png''"
    by (simp add: sublist_Cons_right)
  have h2: "\<not> isfile (example_world []) ''/docs/a.png''"
    by (simp add: example_world_def)
  have p: "path_join (source_folder (example_world [])) ''a.png'' = ''/docs/a.png''"
    by (simp add: example_world_def path_join_def suffix_to_prefix)
  have r: "add_attachments_loop (example_world []) example_globals ''42'' [''b.png'']
             [LogError ''File %s cannot be found --> skip '']
           = ([LogError ''File %s cannot be found --> skip '',
               LogError ''File %s cannot be found --> skip ''], Inr ())"
    by (simp add: run_defs)
  show ?thesis
    using missing_file_logged_and_skipped [OF h1 h2, of example_globals "''42''" "[]" "[]"] h1 h2 p r
    by simp
qed

subsection \<open>The delete flag\<close>

text \<open>
  C1. With the delete flag set and no page of that title, the run is not a no-op: the
  guard \<open>DELETE and page\<close> is false, the run goes on to the create branch and the page
  is created.
\<close>

theorem delete_of_absent_page_creates:
  "main (example_world []) (example_globals\<lparr>DELETE_flag := True\<rparr>) ''Title'' ''<p>Hello</p>'' []
   = ([Call (GET ''https://org.atlassian.net/wiki/rest/api/content?title=Title&spaceKey=SP&expand=version,ancestors''),
       Call (POST_page ''https://org.atlassian.net/wiki/rest/api/content/''
         \<lparr>np_title = ''Title'', np_space_key = ''SP'', np_body = ''<p>Hello</p>'',
          np_ancestors = [], np_editor = ''v1''\<rparr>)],
      Inr ())"
  by (simp add: run_defs)

subsection \<open>What the passes before the update leave in the trace\<close>

lemma page_updates_simps [simp]:
  "page_updates [] = []"
  "page_updates (e # tr) = page_update_of e @ page_updates tr"
  "page_updates (tr @ tr') = page_updates tr @ page_updates tr'"
  by (simp_all add: page_updates_def)

lemma property_updates_simps [simp]:
  "property_updates [] = []"
  "property_updates (e # tr) = property_update_of e @ property_updates tr"
  "property_updates (tr @ tr') = property_updates tr @ property_updates tr'"
  by (simp_all add: property_updates_def)

lemma quiet_refl: "quiet tr tr"
  by (simp add: quiet_def)

lemma quiet_trans: "quiet a b \<Longrightarrow> quiet b c \<Longrightarrow> quiet a c"
  by (auto simp: quiet_def)

lemma quiet_snoc:
  "page_update_of e = [] \<Longrightarrow> property_update_of e = [] \<Longrightarrow> quiet tr (tr @ [e])"
  by (simp add: quiet_def)

lemma quiet_append:
  "page_updates ev = [] \<Longrightarrow> property_updates ev = [] \<Longrightarrow> quiet tr (tr @ ev)"
  by (simp add: quiet_def)

lemma get_attachment_quiet: "quiet tr (fst (get_attachment w g page_id filename tr))"
  by (auto simp: get_attachment_def send_def Let_def quiet_def
      split: payload.splits list.splits)

lemma upload_attachment_quiet: "quiet tr (fst (upload_attachment w g page_id file comment tr))"
proof -
  have q: "quiet tr (fst (get_attachment w g page_id (basename file) tr))"
    by (rule get_attachment_quiet)
  show ?thesis
  proof (cases "get_attachment w g page_id (basename file) tr")
    case (Pair tr1 r)
    with q have q1: "quiet tr tr1" by simp
    have q2: "quiet tr1 (tr1 @ [Call (POST_files u f)])" for u f
      by (rule quiet_snoc) simp_all
    show ?thesis
      using Pair q1 quiet_trans [OF q1 q2]
      by (auto simp: upload_attachment_def send_def Let_def quiet_refl quiet_snoc
          split: sum.splits option.splits)
  qed
qed

lemma add_images_loop_quiet: "quiet tr (fst (add_images_loop w g page_id tags html tr))"
proof (induction tags arbitrary: html tr)
  case Nil
  show ?case by (simp add: quiet_refl)
next
  case (Cons tag tags)
  show ?case
  proof (cases "re_search re_src tag")
    case None
    then show ?thesis by (simp add: quiet_refl)
  next
    case s1: (Some m1)
    show ?thesis
    proof (cases "re_search re_alt tag")
      case None
      then show ?thesis using s1 by (simp add: quiet_refl split: prod.splits)
    next
      case s2: (Some m2)
      obtain a1 gs1 b1 where m1: "m1 = (a1, gs1, b1)" by (cases m1) auto
      obtain a2 gs2 b2 where m2: "m2 = (a2, gs2, b2)" by (cases m2) auto
      let ?up = "upload_attachment w g page_id (path_join (source_folder w) (grp 0 gs1)) (grp 0 gs2) tr"
      have q: "quiet tr (fst ?up)" by (rule upload_attachment_quiet)
      show ?thesis
      proof (cases ?up)
        case (Pair tr1 r)
        with q have q1: "quiet tr tr1" by simp
        show ?thesis
        proof (cases r)
          case (Inl e)
          then show ?thesis using s1 s2 m1 m2 Pair q1 by (simp add: Let_def)
        next
          case (Inr v)
          have "quiet tr1 (fst (add_images_loop w g page_id tags h tr1))" for h
            by (rule Cons.IH)
          then have "quiet tr (fst (add_images_loop w g page_id tags h tr1))" for h
            using q1 quiet_trans by blast
          then show ?thesis using s1 s2 m1 m2 Pair Inr by (simp add: Let_def)
        qed
      qed
    qed
  qed
qed

lemma add_images_quiet: "quiet tr (fst (add_images w g page_id html tr))"
  by (simp add: add_images_def add_images_loop_quiet)

lemma add_attachments_loop_quiet: "quiet tr (fst (add_attachments_loop w g page_id files tr))"
proof (induction files arbitrary: tr)
  case Nil
  show ?case by (simp add: quiet_refl)
next
  case (Cons f files)
  let ?up = "upload_attachment w g page_id (path_join (source_folder w) f) [] tr"
  have q: "quiet tr (fst ?up)" by (rule upload_attachment_quiet)
  show ?case
  proof (cases ?up)
    case (Pair tr1 r)
    with q have q1: "quiet tr tr1" by simp
    show ?thesis
    proof (cases r)
      case (Inl e)
      then show ?thesis using Pair q1 by simp
    next
      case (Inr v)
      have "quiet tr1 (fst (add_attachments_loop w g page_id files tr1))" by (rule Cons.IH)
      then show ?thesis using Pair Inr q1 quiet_trans by auto
    qed
  qed
qed

lemma add_attachments_quiet: "quiet tr (fst (add_attachments w g page_id files tr))"
  by (simp add: add_attachments_def add_attachments_loop_quiet quiet_refl split: option.splits)

lemma add_local_refs_quiet: "quiet tr (fst (add_local_refs g page_id title html tr))"
  by (auto simp: add_local_refs_def Let_def quiet_refl quiet_snoc split: option.splits sum.splits)

lemma get_page_quiet: "quiet tr (fst (get_page w g title tr))"
  by (auto simp: get_page_def send_def Let_def quiet_def split: payload.splits list.splits)

lemma delete_page_quiet: "quiet tr (fst (delete_page w g page_id tr))"
  by (auto simp: delete_page_def send_def quiet_def)

subsection \<open>What an update leaves in the trace\<close>

lemma put_properties_trace:
  "\<exists>ev. fst (put_properties w url props tr) = tr @ ev \<and> page_updates ev = []
        \<and> set (property_updates ev) \<subseteq> sent_property ` set props"
proof (induction props arbitrary: tr)
  case Nil
  show ?case by simp
next
  case (Cons kp props)
  obtain key p where kp: "kp = (key, p)" by (cases kp) auto
  let ?rq = "PUT_property (url @ ''/property/'' @ key)
               \<lparr>pr_key = key, pr_version = pr_version p, pr_value = pr_value p\<rparr>"
  show ?case
  proof (cases "http_error (server w tr ?rq)")
    case True
    then have "fst (put_properties w url (kp # props) tr) = tr @ [Call ?rq]"
      by (simp add: kp send_def)
    then show ?thesis by (simp add: kp sent_property_def)
  next
    case False
    obtain ev where ev: "fst (put_properties w url props (tr @ [Call ?rq])) = (tr @ [Call ?rq]) @ ev"
        "page_updates ev = []" "set (property_updates ev) \<subseteq> sent_property ` set props"
      using Cons.IH [of "tr @ [Call ?rq]"] by blast
    from False have "fst (put_properties w url (kp # props) tr) = tr @ (Call ?rq # ev)"
      using ev(1) by (simp add: kp send_def)
    moreover have "page_updates (Call ?rq # ev) = []" using ev(2) by simp
    moreover have "set (property_updates (Call ?rq # ev)) \<subseteq> sent_property ` set (kp # props)"
      using ev(3) by (auto simp: kp sent_property_def)
    ultimately show ?thesis by blast
  qed
qed

lemma update_page_trace:
  "\<exists>ev. fst (update_page w g page_id title body version ancestors props att tr) = tr @ ev
        \<and> length (page_updates ev) \<le> 1
        \<and> (\<forall>pj \<in> set (page_updates ev). pj_id pj = page_id \<and> pj_version pj = version + 1)
        \<and> set (property_updates ev) \<subseteq> sent_property ` set props
        \<and> (snd (update_page w g page_id title body version ancestors props att tr) = Inr ()
             \<longrightarrow> length (page_updates ev) = 1)"
proof -
  obtain tr1 r1 where a1: "add_images w g page_id body tr = (tr1, r1)" by fastforce
  have q1: "quiet tr tr1" using add_images_quiet [of tr w g page_id body] a1 by simp
  show ?thesis
  proof (cases r1)
    case (Inl e)
    then show ?thesis using q1 by (auto simp: update_page_def a1 quiet_def)
  next
    case r1: (Inr body1)
    obtain tr2 r2 where a2: "add_attachments w g page_id att tr1 = (tr2, r2)" by fastforce
    have q2: "quiet tr tr2"
      using add_attachments_quiet [of tr1 w g page_id att] a2 q1 quiet_trans by fastforce
    show ?thesis
    proof (cases r2)
      case (Inl e)
      then show ?thesis using q2 by (auto simp: update_page_def a1 a2 r1 quiet_def)
    next
      case r2: (Inr u)
      obtain tr3 r3 where a3: "add_local_refs g page_id title body1 tr2 = (tr3, r3)" by fastforce
      have q3: "quiet tr tr3"
        using add_local_refs_quiet [of tr2 g page_id title body1] a3 q2 quiet_trans by fastforce
      show ?thesis
      proof (cases r3)
        case (Inl e)
        then show ?thesis using q3 by (auto simp: update_page_def a1 a2 r1 r2 a3 quiet_def)
      next
        case r3: (Inr body2)
        define url where "url = CONFLUENCE_API_URL g @ ''/rest/api/content/'' @ page_id"
        define pj where "pj = \<lparr>pj_id = page_id, pj_title = title, pj_space_key = SPACE_KEY g,
                     pj_body = body2, pj_version = version + 1, pj_ancestors = ancestors,
                     pj_labels = (if LABELS g \<noteq> [] then Some (LABELS g) else None)\<rparr>"
        define tr4 where "tr4 = tr3 @ [Call (PUT_page url pj)]"
        define resp where "resp = server w tr3 (PUT_page url pj)"
        have up: "update_page w g page_id title body version ancestors props att tr =
          (if http_error resp then (tr4, Inl (Uncaught HTTPError))
           else if status_code resp = 200 then
             (case data resp of
                PageData a b c webui \<Rightarrow>
                  (case (if props \<noteq> [] then put_properties w url props tr4
                         else (tr4, Inr ())) of
                     (tr5, Inl e) \<Rightarrow> (tr5, Inl e)
                   | (tr5, Inr u) \<Rightarrow>
                       if GO_TO_PAGE g
                       then (tr5 @ [Browser (CONFLUENCE_API_URL g @ webui)], Inr ())
                       else (tr5, Inr ()))
              | _ \<Rightarrow> (tr4, Inl (Uncaught KeyError)))
           else (tr4 @ [LogError ''Page could not be updated.''], Inr ()))"
          by (simp only: update_page_def a1 a2 r1 r2 a3 r3 Let_def send_def
                url_def pj_def tr4_def resp_def prod.case sum.case)
        have pj: "pj_id pj = page_id" "pj_version pj = version + 1"
          by (simp_all add: pj_def)
        obtain ev0 where ev0: "tr3 = tr @ ev0" "page_updates ev0 = []" "property_updates ev0 = []"
          using q3 by (auto simp: quiet_def)
        obtain evp where evp: "fst (put_properties w url props tr4) = tr4 @ evp"
            "page_updates evp = []" "set (property_updates evp) \<subseteq> sent_property ` set props"
          using put_properties_trace [of w url props tr4] by blast
        obtain tr5 r5 where a5: "put_properties w url props tr4 = (tr5, r5)" by fastforce
        have tr5: "tr5 = tr4 @ evp" using evp(1) a5 by simp
        have a5': "put_properties w url props (tr @ ev0 @ [Call (PUT_page url pj)]) = (tr5, r5)"
          using a5 by (simp add: tr4_def ev0(1))
        show ?thesis
          unfolding up
          using ev0 evp(2,3) tr5 pj
          by (auto simp: a5' tr4_def split: payload.splits sum.splits)
      qed
    qed
  qed
qed

subsection \<open>A run on a page that exists\<close>

lemma set_AList_update: "set (AList.update k v al) \<subseteq> insert (k, v) (set al)"
  by (induction al) auto

lemma updated_properties_sound:
  "kp \<in> set (updated_properties pp ps acc) \<Longrightarrow>
     kp \<in> set acc \<or>
     ((fst kp, pr_value (snd kp)) \<in> set ps \<and> pr_key (snd kp) = fst kp \<and>
      pr_version (snd kp) = (case pp (fst kp) of Some n \<Rightarrow> n + 1 | None \<Rightarrow> 1))"
proof (induction ps arbitrary: acc)
  case Nil
  then show ?case by simp
next
  case (Cons kv ps)
  obtain key v where kv: "kv = (key, v)" by (cases kv) auto
  let ?p = "(case pp key of
               Some number \<Rightarrow> \<lparr>pr_key = key, pr_version = number + 1, pr_value = v\<rparr>
             | None \<Rightarrow> \<lparr>pr_key = key, pr_version = 1, pr_value = v\<rparr>)"
  from Cons.prems have "kp \<in> set (updated_properties pp ps (AList.update key ?p acc))"
    by (simp add: kv)
  from Cons.IH [OF this] show ?case
  proof
    assume "kp \<in> set (AList.update key ?p acc)"
    then have "kp = (key, ?p) \<or> kp \<in> set acc"
      using set_AList_update [of key ?p acc] by auto
    then show ?thesis by (auto simp: kv split: option.splits)
  next
    assume "(fst kp, pr_value (snd kp)) \<in> set ps \<and> pr_key (snd kp) = fst kp \<and>
      pr_version (snd kp) = (case pp (fst kp) of Some n \<Rightarrow> n + 1 | None \<Rightarrow> 1)"
    then show ?thesis by (simp add: kv)
  qed
qed

lemma main_ancestors_quiet: "quiet tr (fst (main_ancestors w g tr))"
proof (cases "ANCESTOR g")
  case None
  then show ?thesis by (simp add: main_ancestors_def quiet_refl)
next
  case (Some a)
  obtain tr2 r2 where gp: "get_page w g a tr = (tr2, r2)" by fastforce
  have q: "quiet tr tr2" using get_page_quiet [of tr w g a] gp by simp
  have q': "quiet tr (tr2 @ [LogError m])" for m
    by (rule quiet_trans [OF q]) (simp add: quiet_snoc)
  show ?thesis
    using Some gp q q'
    by (auto simp: main_ancestors_def quiet_refl split: sum.splits option.splits)
qed

lemma main_present_trace:
  assumes gp: "get_page w g title [] = (tr1, Inr (Some p))"
  shows "length (page_updates (fst (main w g title html []))) \<le> 1
       \<and> (\<forall>pj \<in> set (page_updates (fst (main w g title html []))).
             pj_id pj = pi_id p \<and> pj_version pj = pi_version p + 1)
       \<and> set (property_updates (fst (main w g title html [])))
             \<subseteq> sent_property ` set (updated_properties (pi_properties p) (PROPERTIES g) [])
       \<and> (snd (main w g title html []) = Inr ()
             \<longrightarrow> length (page_updates (fst (main w g title html []))) = 1)"
proof (cases "SIMULATE g")
  case True
  then show ?thesis by (simp add: main_def)
next
  case sim: False
  have q1: "page_updates tr1 = []" "property_updates tr1 = []"
    using get_page_quiet [of "[]" w g title] gp by (auto simp: quiet_def)
  show ?thesis
  proof (cases "DELETE_flag g")
    case True
    obtain tr2 r2 where d: "delete_page w g (pi_id p) tr1 = (tr2, r2)" by fastforce
    have "quiet tr1 tr2" using delete_page_quiet [of tr1 w g "pi_id p"] d by simp
    then have "page_updates tr2 = []" "property_updates tr2 = []"
      using q1 by (auto simp: quiet_def)
    then show ?thesis
      using sim True gp d by (auto simp: main_def split: sum.splits)
  next
    case del: False
    obtain tr3 r3 where a: "main_ancestors w g tr1 = (tr3, r3)" by fastforce
    have "quiet tr1 tr3" using main_ancestors_quiet [of tr1 w g] a by simp
    then have q3: "page_updates tr3 = []" "property_updates tr3 = []"
      using q1 by (auto simp: quiet_def)
    show ?thesis
    proof (cases r3)
      case (Inl e)
      then show ?thesis using sim del gp a q3 by (simp add: main_def)
    next
      case (Inr ancestors)
      define props where "props = updated_properties (pi_properties p) (PROPERTIES g) []"
      have m: "main w g title html [] =
                 update_page w g (pi_id p) title html (pi_version p) ancestors props
                   (ATTACHMENTS g) tr3"
        using sim del gp a Inr by (simp add: main_def props_def)
      obtain ev where ev:
        "fst (update_page w g (pi_id p) title html (pi_version p) ancestors props
                (ATTACHMENTS g) tr3) = tr3 @ ev"
        "length (page_updates ev) \<le> 1"
        "\<forall>pj \<in> set (page_updates ev). pj_id pj = pi_id p \<and> pj_version pj = pi_version p + 1"
        "set (property_updates ev) \<subseteq> sent_property ` set props"
        "snd (update_page w g (pi_id p) title html (pi_version p) ancestors props
                (ATTACHMENTS g) tr3) = Inr () \<longrightarrow> length (page_updates ev) = 1"
        using update_page_trace [of w g "pi_id p" title html "pi_version p" ancestors props
                "ATTACHMENTS g" tr3] by blast
      show ?thesis
        unfolding m props_def [symmetric]
        using ev q3 by simp
    qed
  qed
qed

lemma example_lookup:
  "get_page (example_world [example_page]) example_globals_properties ''Title'' []
     = ([Call (GET ''https://org.atlassian.net/wiki/rest/api/content?title=Title&spaceKey=SP&expand=version,ancestors,metadata.properties.owner,metadata.properties.team'')],
        Inr (Some example_page_info))"
  by (simp add: run_defs example_globals_properties_def example_page_info_def)

lemma example_update_run:
  "main (example_world [example_page]) example_globals_properties ''Title'' ''<p>Hello</p>'' []
     = ([Call (GET ''https://org.atlassian.net/wiki/rest/api/content?title=Title&spaceKey=SP&expand=version,ancestors,metadata.properties.owner,metadata.properties.team''),
         LogWarning ''Local references werent processed because --markdownsrc wasnt set or specified source isnt supported'',
         Call (PUT_page ''https://org.atlassian.net/wiki/rest/api/content/7''
           \<lparr>pj_id = ''7'', pj_title = ''Title'', pj_space_key = ''SP'', pj_body = ''<p>Hello</p>'',
            pj_version = 6, pj_ancestors = [], pj_labels = None\<rparr>),
         Call (PUT_property ''https://org.atlassian.net/wiki/rest/api/content/7/property/owner''
           \<lparr>pr_key = ''owner'', pr_version = 4, pr_value = ''alice''\<rparr>),
         Call (PUT_property ''https://org.atlassian.net/wiki/rest/api/content/7/property/team''
           \<lparr>pr_key = ''team'', pr_version = 1, pr_value = ''docs''\<rparr>)],
        Inr ())"
  by (simp add: run_defs example_globals_properties_def)

text \<open>
  C3. In a run on a page that exists, every property update that is sent is for a
  configured property with its configured value, and its version number is 1 when the
  page has no property of that key and \<open>K + 1\<close> when the page has it at version \<open>K\<close>.
  The number is read from the page's property of that key alone; the version of the
  page does not enter it.
\<close>

theorem property_version_from_own_history:
  assumes "get_page w g title [] = (tr1, Inr (Some p))"
  shows "\<forall>pr \<in> set (property_updates (fst (main w g title html []))).
           (pr_key pr, pr_value pr) \<in> set (PROPERTIES g)
           \<and> pr_version pr = (case pi_properties p (pr_key pr) of Some K \<Rightarrow> K + 1 | None \<Rightarrow> 1)"
proof
  fix pr
  assume "pr \<in> set (property_updates (fst (main w g title html [])))"
  then have "pr \<in> sent_property ` set (updated_properties (pi_properties p) (PROPERTIES g) [])"
    using main_present_trace [OF assms, of html] by blast
  then obtain kp where kp: "kp \<in> set (updated_properties (pi_properties p) (PROPERTIES g) [])"
      and pr: "pr = sent_property kp"
    by blast
  from updated_properties_sound [OF kp] pr
  show "(pr_key pr, pr_value pr) \<in> set (PROPERTIES g)
        \<and> pr_version pr = (case pi_properties p (pr_key pr) of Some K \<Rightarrow> K + 1 | None \<Rightarrow> 1)"
    by (simp add: sent_property_def)
qed

theorem property_version_from_own_history_witness:
  "get_page (example_world [example_page]) example_globals_properties ''Title'' []
     = ([Call (GET ''https://org.atlassian.net/wiki/rest/api/content?title=Title&spaceKey=SP&expand=version,ancestors,metadata.properties.owner,metadata.properties.team'')],
        Inr (Some example_page_info))
   \<and> pi_version example_page_info = 5
   \<and> pi_properties example_page_info ''owner'' = Some 3
   \<and> pi_properties example_page_info ''team'' = None
   \<and> property_updates (fst (main (example_world [example_page]) example_globals_properties
         ''Title'' ''<p>Hello</p>'' []))
       = [\<lparr>pr_key = ''owner'', pr_version = 4, pr_value = ''alice''\<rparr>,
          \<lparr>pr_key = ''team'', pr_version = 1, pr_value = ''docs''\<rparr>]
   \<and> pr_version \<lparr>pr_key = ''owner'', pr_version = 4, pr_value = ''alice''\<rparr>
       = (case pi_properties example_page_info ''owner'' of Some K \<Rightarrow> K + 1 | None \<Rightarrow> 1)
   \<and> pr_version \<lparr>pr_key = ''team'', pr_version = 1, pr_value = ''docs''\<rparr>
       = (case pi_properties example_page_info ''team'' of Some K \<Rightarrow> K + 1 | None \<Rightarrow> 1)"
  using property_version_from_own_history [OF example_lookup, of "''<p>Hello</p>''"]
    example_lookup example_update_run
  by (simp add: example_page_info_def)

subsection \<open>The update call of a run\<close>

text \<open>
  C2, as the claim states it, fails: a page that exists at version 5 gets no update
  call in a run with the delete flag, which deletes it and exits.
\<close>

theorem existing_page_deleted_not_updated:
  "get_page (example_world [example_page]) (example_globals\<lparr>DELETE_flag := True\<rparr>) ''Title'' []
     = ([Call (GET ''https://org.atlassian.net/wiki/rest/api/content?title=Title&spaceKey=SP&expand=version,ancestors'')],
        Inr (Some example_page_info))
   \<and> pi_version example_page_info = 5
   \<and> main (example_world [example_page]) (example_globals\<lparr>DELETE_flag := True\<rparr>)
         ''Title'' ''<p>Hello</p>'' []
     = ([Call (GET ''https://org.atlassian.net/wiki/rest/api/content?title=Title&spaceKey=SP&expand=version,ancestors''),
         Call (DELETE ''https://org.atlassian.net/wiki/rest/api/content/7'')],
        Inl (SysExit 1))
   \<and> page_updates (fst (main (example_world [example_page]) (example_globals\<lparr>DELETE_flag := True\<rparr>)
         ''Title'' ''<p>Hello</p>'' [])) = []"
  by (simp add: run_defs example_page_info_def)

lemma update_page_updates:
  "page_updates (fst (update_page w g page_id title body version ancestors props att tr)) =
     page_updates tr @
     (case update_passes w g page_id title body att tr of
        (tr3, Inl e) \<Rightarrow> []
      | (tr3, Inr body2) \<Rightarrow>
          [\<lparr>pj_id = page_id, pj_title = title, pj_space_key = SPACE_KEY g,
            pj_body = body2, pj_version = version + 1, pj_ancestors = ancestors,
            pj_labels = (if LABELS g \<noteq> [] then Some (LABELS g) else None)\<rparr>])"
proof -
  obtain tr1 r1 where a1: "add_images w g page_id body tr = (tr1, r1)" by fastforce
  have q1: "quiet tr tr1" using add_images_quiet [of tr w g page_id body] a1 by simp
  show ?thesis
  proof (cases r1)
    case (Inl e)
    then show ?thesis using q1 by (auto simp: update_page_def update_passes_def a1 quiet_def)
  next
    case r1: (Inr body1)
    obtain tr2 r2 where a2: "add_attachments w g page_id att tr1 = (tr2, r2)" by fastforce
    have q2: "quiet tr tr2"
      using add_attachments_quiet [of tr1 w g page_id att] a2 q1 quiet_trans by fastforce
    show ?thesis
    proof (cases r2)
      case (Inl e)
      then show ?thesis
        using q2 by (auto simp: update_page_def update_passes_def a1 a2 r1 quiet_def)
    next
      case r2: (Inr u)
      obtain tr3 r3 where a3: "add_local_refs g page_id title body1 tr2 = (tr3, r3)" by fastforce
      have q3: "quiet tr tr3"
        using add_local_refs_quiet [of tr2 g page_id title body1] a3 q2 quiet_trans by fastforce
      have ps: "update_passes w g page_id title body att tr = (tr3, r3)"
        by (simp add: update_passes_def a1 r1 a2 r2 a3)
      show ?thesis
      proof (cases r3)
        case (Inl e)
        then show ?thesis
          using q3 by (auto simp: update_page_def ps a1 a2 r1 r2 a3 quiet_def)
      next
        case r3: (Inr body2)
        define url where "url = CONFLUENCE_API_URL g @ ''/rest/api/content/'' @ page_id"
        define pj where "pj = \<lparr>pj_id = page_id, pj_title = title, pj_space_key = SPACE_KEY g,
                     pj_body = body2, pj_version = version + 1, pj_ancestors = ancestors,
                     pj_labels = (if LABELS g \<noteq> [] then Some (LABELS g) else None)\<rparr>"
        define tr4 where "tr4 = tr3 @ [Call (PUT_page url pj)]"
        define resp where "resp = server w tr3 (PUT_page url pj)"
        have up: "update_page w g page_id title body version ancestors props att tr =
          (if http_error resp then (tr4, Inl (Uncaught HTTPError))
           else if status_code resp = 200 then
             (case data resp of
                PageData a b c webui \<Rightarrow>
                  (case (if props \<noteq> [] then put_properties w url props tr4
                         else (tr4, Inr ())) of
                     (tr5, Inl e) \<Rightarrow> (tr5, Inl e)
                   | (tr5, Inr u) \<Rightarrow>
                       if GO_TO_PAGE g
                       then (tr5 @ [Browser (CONFLUENCE_API_URL g @ webui)], Inr ())
                       else (tr5, Inr ()))
              | _ \<Rightarrow> (tr4, Inl (Uncaught KeyError)))
           else (tr4 @ [LogError ''Page could not be updated.''], Inr ()))"
          by (simp only: update_page_def a1 a2 r1 r2 a3 r3 Let_def send_def
                url_def pj_def tr4_def resp_def prod.case sum.case)
        have p3: "page_updates tr3 = page_updates tr"
          using q3 by (auto simp: quiet_def)
        obtain evp where evp: "fst (put_properties w url props tr4) = tr4 @ evp"
            "page_updates evp = []"
          using put_properties_trace [of w url props tr4] by blast
        obtain tr5 r5 where a5: "put_properties w url props tr4 = (tr5, r5)" by fastforce
        have tr5: "page_updates tr5 = page_updates tr @ [pj]"
          using evp a5 p3 by (simp add: tr4_def)
        have t4: "page_updates tr4 = page_updates tr @ [pj]"
          using p3 by (simp add: tr4_def)
        have "page_updates (fst (update_page w g page_id title body version ancestors props att tr))
                = page_updates tr @ [pj]"
          unfolding up using tr5 t4
          by (auto simp: a5 split: payload.splits sum.splits)
        then show ?thesis by (simp add: ps r3 pj_def)
      qed
    qed
  qed
qed

lemma main_ancestors_updates:
  "main_ancestors w g tr = (tr3, r) \<Longrightarrow> page_updates tr3 = page_updates tr"
  using main_ancestors_quiet [of tr w g] by (auto simp: quiet_def)

text \<open>
  C2, amended. In a run on a page that exists at version \<open>N\<close>: with the simulate or
  the delete flag no page update is sent; nor is one sent when the ancestor lookup
  fails or finds no parent page, or when one of the three passes before the request
  (images, attachments, local references) stops the run; in every other run exactly
  one page update is sent, for that page, with the version \<open>N + 1\<close>, the body the
  passes return, the ancestors found and the configured labels. So at most one page
  update is sent, always with \<open>N + 1\<close>, and a run that returns has sent exactly one.
\<close>

theorem update_carries_next_version:
  assumes "get_page w g title [] = (tr1, Inr (Some p))"
  shows "page_updates (fst (main w g title html [])) =
           (if SIMULATE g \<or> DELETE_flag g then []
            else case main_ancestors w g tr1 of
                   (tr3, Inl e) \<Rightarrow> []
                 | (tr3, Inr ancestors) \<Rightarrow>
                     (case update_passes w g (pi_id p) title html (ATTACHMENTS g) tr3 of
                        (tr4, Inl e) \<Rightarrow> []
                      | (tr4, Inr body) \<Rightarrow>
                          [\<lparr>pj_id = pi_id p, pj_title = title, pj_space_key = SPACE_KEY g,
                            pj_body = body, pj_version = pi_version p + 1,
                            pj_ancestors = ancestors,
                            pj_labels = (if LABELS g \<noteq> [] then Some (LABELS g) else None)\<rparr>]))
       \<and> length (page_updates (fst (main w g title html []))) \<le> 1
       \<and> (\<forall>pj \<in> set (page_updates (fst (main w g title html []))).
             pj_id pj = pi_id p \<and> pj_version pj = pi_version p + 1)
       \<and> (snd (main w g title html []) = Inr ()
             \<longrightarrow> length (page_updates (fst (main w g title html []))) = 1)"
proof -
  have q1: "page_updates tr1 = []"
    using get_page_quiet [of "[]" w g title] assms by (auto simp: quiet_def)
  have eq: "page_updates (fst (main w g title html [])) =
           (if SIMULATE g \<or> DELETE_flag g then []
            else case main_ancestors w g tr1 of
                   (tr3, Inl e) \<Rightarrow> []
                 | (tr3, Inr ancestors) \<Rightarrow>
                     (case update_passes w g (pi_id p) title html (ATTACHMENTS g) tr3 of
                        (tr4, Inl e) \<Rightarrow> []
                      | (tr4, Inr body) \<Rightarrow>
                          [\<lparr>pj_id = pi_id p, pj_title = title, pj_space_key = SPACE_KEY g,
                            pj_body = body, pj_version = pi_version p + 1,
                            pj_ancestors = ancestors,
                            pj_labels = (if LABELS g \<noteq> [] then Some (LABELS g) else None)\<rparr>]))"
  proof (cases "SIMULATE g")
    case True
    then show ?thesis by (simp add: main_def)
  next
    case sim: False
    show ?thesis
    proof (cases "DELETE_flag g")
      case True
      obtain tr2 r2 where d: "delete_page w g (pi_id p) tr1 = (tr2, r2)" by fastforce
      have "quiet tr1 tr2" using delete_page_quiet [of tr1 w g "pi_id p"] d by simp
      then have "page_updates tr2 = []" using q1 by (auto simp: quiet_def)
      then show ?thesis
        using sim True assms d by (auto simp: main_def split: sum.splits)
    next
      case del: False
      obtain tr3 r3 where a: "main_ancestors w g tr1 = (tr3, r3)" by fastforce
      have q3: "page_updates tr3 = []"
        using main_ancestors_updates [OF a] q1 by simp
      show ?thesis
      proof (cases r3)
        case (Inl e)
        then show ?thesis using sim del assms a q3 by (simp add: main_def)
      next
        case (Inr ancestors)
        have m: "main w g title html [] =
                   update_page w g (pi_id p) title html (pi_version p) ancestors
                     (updated_properties (pi_properties p) (PROPERTIES g) [])
                     (ATTACHMENTS g) tr3"
          using sim del assms a Inr by (simp add: main_def)
        show ?thesis
          unfolding m update_page_updates
          using sim del a Inr q3 by simp
      qed
    qed
  qed
  show ?thesis
    using eq main_present_trace [OF assms, of html] by blast
qed

theorem update_carries_next_version_witness:
  "get_page (example_world [example_page]) example_globals_properties ''Title'' []
     = ([Call (GET ''https://org.atlassian.net/wiki/rest/api/content?title=Title&spaceKey=SP&expand=version,ancestors,metadata.properties.owner,metadata.properties.team'')],
        Inr (Some example_page_info))
   \<and> pi_version example_page_info = 5
   \<and> \<not> SIMULATE example_globals_properties \<and> \<not> DELETE_flag example_globals_properties
   \<and> snd (main_ancestors (example_world [example_page]) example_globals_properties
        [Call (GET ''https://org.atlassian.net/wiki/rest/api/content?title=Title&spaceKey=SP&expand=version,ancestors,metadata.properties.owner,metadata.properties.team'')])
       = Inr []
   \<and> snd (update_passes (example_world [example_page]) example_globals_properties ''7'' ''Title''
        ''<p>Hello</p>'' None
        [Call (GET ''https://org.atlassian.net/wiki/rest/api/content?title=Title&spaceKey=SP&expand=version,ancestors,metadata.properties.owner,metadata.properties.team'')])
       = Inr ''<p>Hello</p>''
   \<and> snd (main (example_world [example_page]) example_globals_properties
            ''Title'' ''<p>Hello</p>'' []) = Inr ()
   \<and> page_updates (fst (main (example_world [example_page]) example_globals_properties
         ''Title'' ''<p>Hello</p>'' []))
       = [\<lparr>pj_id = ''7'', pj_title = ''Title'', pj_space_key = ''SP'', pj_body = ''<p>Hello</p>'',
           pj_version = 6, pj_ancestors = [], pj_labels = None\<rparr>]
   \<and> length (page_updates (fst (main (example_world [example_page]) example_globals_properties
         ''Title'' ''<p>Hello</p>'' []))) = 1"
proof -
  have a: "snd (main_ancestors (example_world [example_page]) example_globals_properties
        [Call (GET ''https://org.atlassian.net/wiki/rest/api/content?title=Title&spaceKey=SP&expand=version,ancestors,metadata.properties.owner,metadata.properties.team'')])
       = Inr []"
    by (simp add: main_ancestors_def example_globals_properties_def example_globals_def)
  have u: "snd (update_passes (example_world [example_page]) example_globals_properties ''7'' ''Title''
        ''<p>Hello</p>'' None
        [Call (GET ''https://org.atlassian.net/wiki/rest/api/content?title=Title&spaceKey=SP&expand=version,ancestors,metadata.properties.owner,metadata.properties.team'')])
       = Inr ''<p>Hello</p>''"
    by (simp add: update_passes_def run_defs example_globals_properties_def)
  have f: "\<not> SIMULATE example_globals_properties \<and> \<not> DELETE_flag example_globals_properties"
    by (simp add: example_globals_properties_def example_globals_def)
  have t: "length (page_updates (fst (main (example_world [example_page])
             example_globals_properties ''Title'' ''<p>Hello</p>'' []))) \<le> 1"
    using update_carries_next_version [OF example_lookup, of "''<p>Hello</p>''"] by blast
  show ?thesis
    using t example_lookup example_update_run a u f
    by (simp add: example_page_info_def)
qed

subsection \<open>After a create\<close>

lemma AList_update_not_Nil: "AList.update k v al \<noteq> []"
  by (cases al) auto

lemma initial_properties_Nil_iff: "initial_properties ps acc = [] \<longleftrightarrow> ps = [] \<and> acc = []"
proof (induction ps arbitrary: acc)
  case Nil
  show ?case by simp
next
  case (Cons kv ps)
  obtain k v where kv: "kv = (k, v)" by (cases kv) auto
  show ?case using Cons.IH [of "AList.update k \<lparr>pr_key = k, pr_version = 1, pr_value = v\<rparr> acc"]
    by (simp add: kv AList_update_not_Nil)
qed

lemma create_page_ok:
  assumes "send w (POST_page (CONFLUENCE_API_URL g @ ''/rest/api/content/'')
             \<lparr>np_title = title, np_space_key = SPACE_KEY g, np_body = body,
              np_ancestors = ancestors, np_editor = ''v'' @ show_int (VERSION g)\<rparr>) tr
           = (tr1, \<lparr>status_code = 200, data = PageData space_name page_id version webui\<rparr>)"
  shows "create_page w g title body ancestors tr =
    (if re_search re_img body \<noteq> None \<or> re_search re_link body \<noteq> None
        \<or> PROPERTIES g \<noteq> [] \<or> (ATTACHMENTS g \<noteq> None \<and> ATTACHMENTS g \<noteq> Some [])
        \<or> LABELS g \<noteq> []
     then update_page w g page_id title body version ancestors
            (initial_properties (PROPERTIES g) []) (ATTACHMENTS g) tr1
     else if GO_TO_PAGE g then (tr1 @ [Browser (CONFLUENCE_API_URL g @ webui)], Inr ())
     else (tr1, Inr ()))"
  by (simp only: create_page_def Let_def assms prod.case)
     (simp add: http_error_def initial_properties_Nil_iff)


text \<open>
  C6. After a create that the service answers with 200: if the body has an image tag or
  a link to an anchor of the document, or properties, attachments or labels are
  configured, \<open>create_page\<close> is one run of \<open>update_page\<close> on the id and version of the
  new page, which sends at most one page update, for that page; otherwise nothing is
  sent after the create (the browser may be opened).
\<close>

theorem create_then_update_once:
  assumes "send w (POST_page (CONFLUENCE_API_URL g @ ''/rest/api/content/'')
             \<lparr>np_title = title, np_space_key = SPACE_KEY g, np_body = body,
              np_ancestors = ancestors, np_editor = ''v'' @ show_int (VERSION g)\<rparr>) tr
           = (tr1, \<lparr>status_code = 200, data = PageData space_name page_id version webui\<rparr>)"
  shows "if re_search re_img body \<noteq> None \<or> re_search re_link body \<noteq> None
            \<or> PROPERTIES g \<noteq> [] \<or> (ATTACHMENTS g \<noteq> None \<and> ATTACHMENTS g \<noteq> Some [])
            \<or> LABELS g \<noteq> []
         then create_page w g title body ancestors tr
                = update_page w g page_id title body version ancestors
                    (initial_properties (PROPERTIES g) []) (ATTACHMENTS g) tr1
              \<and> (\<exists>ev. fst (create_page w g title body ancestors tr) = tr1 @ ev
                    \<and> length (page_updates ev) \<le> 1
                    \<and> (\<forall>pj \<in> set (page_updates ev). pj_id pj = page_id))
         else create_page w g title body ancestors tr
                = (if GO_TO_PAGE g then tr1 @ [Browser (CONFLUENCE_API_URL g @ webui)] else tr1,
                   Inr ())
              \<and> page_updates (fst (create_page w g title body ancestors tr)) = page_updates tr1"
proof -
  note c = create_page_ok [OF assms]
  obtain ev where ev:
    "fst (update_page w g page_id title body version ancestors
            (initial_properties (PROPERTIES g) []) (ATTACHMENTS g) tr1) = tr1 @ ev"
    "length (page_updates ev) \<le> 1"
    "\<forall>pj \<in> set (page_updates ev). pj_id pj = page_id \<and> pj_version pj = version + 1"
    using update_page_trace [of w g page_id title body version ancestors
            "initial_properties (PROPERTIES g) []" "ATTACHMENTS g" tr1] by blast
  show ?thesis
  proof (cases "re_search re_img body \<noteq> None \<or> re_search re_link body \<noteq> None
        \<or> PROPERTIES g \<noteq> [] \<or> (ATTACHMENTS g \<noteq> None \<and> ATTACHMENTS g \<noteq> Some [])
        \<or> LABELS g \<noteq> []")
    case True
    have u: "create_page w g title body ancestors tr
                = update_page w g page_id title body version ancestors
                    (initial_properties (PROPERTIES g) []) (ATTACHMENTS g) tr1"
      using True by (simp only: c if_True)
    have "\<exists>ev. fst (create_page w g title body ancestors tr) = tr1 @ ev
                    \<and> length (page_updates ev) \<le> 1
                    \<and> (\<forall>pj \<in> set (page_updates ev). pj_id pj = page_id)"
      unfolding u using ev by blast
    with u True show ?thesis by (simp only: if_True simp_thms)
  next
    case False
    have n: "create_page w g title body ancestors tr
                = (if GO_TO_PAGE g then tr1 @ [Browser (CONFLUENCE_API_URL g @ webui)] else tr1,
                   Inr ())"
      using False by (simp only: c if_False) simp
    have "page_updates (fst (create_page w g title body ancestors tr)) = page_updates tr1"
      unfolding n by simp
    with n False show ?thesis by (simp only: if_False simp_thms)
  qed
qed

lemma example_create_send:
  "send (example_world []) (POST_page (CONFLUENCE_API_URL G @ ''/rest/api/content/'') np) []
     = ([Call (POST_page (CONFLUENCE_API_URL G @ ''/rest/api/content/'') np)],
        \<lparr>status_code = 200, data = PageData ''Space'' ''42'' 1 ''/p/42''\<rparr>)"
  by (simp add: send_def example_world_def example_server_def)

theorem create_then_update_once_witness:
  "LABELS (example_globals\<lparr>LABELS := [''a'']\<rparr>) \<noteq> []
   \<and> create_page (example_world []) (example_globals\<lparr>LABELS := [''a'']\<rparr>) ''Title'' ''<p>Hello</p>'' [] []
       = update_page (example_world []) (example_globals\<lparr>LABELS := [''a'']\<rparr>) ''42'' ''Title''
           ''<p>Hello</p>'' 1 [] [] None
           [Call (POST_page ''https://org.atlassian.net/wiki/rest/api/content/''
              \<lparr>np_title = ''Title'', np_space_key = ''SP'', np_body = ''<p>Hello</p>'',
               np_ancestors = [], np_editor = ''v1''\<rparr>)]
   \<and> page_updates (fst (create_page (example_world []) (example_globals\<lparr>LABELS := [''a'']\<rparr>)
         ''Title'' ''<p>Hello</p>'' [] []))
       = [\<lparr>pj_id = ''42'', pj_title = ''Title'', pj_space_key = ''SP'', pj_body = ''<p>Hello</p>'',
           pj_version = 2, pj_ancestors = [], pj_labels = Some [''a'']\<rparr>]
   \<and> create_page (example_world []) example_globals ''Title'' ''<p>Hello</p>'' [] []
       = ([Call (POST_page ''https://org.atlassian.net/wiki/rest/api/content/''
              \<lparr>np_title = ''Title'', np_space_key = ''SP'', np_body = ''<p>Hello</p>'',
               np_ancestors = [], np_editor = ''v1''\<rparr>)], Inr ())"
proof -
  have e1: "page_updates (fst (create_page (example_world []) (example_globals\<lparr>LABELS := [''a'']\<rparr>)
         ''Title'' ''<p>Hello</p>'' [] []))
       = [\<lparr>pj_id = ''42'', pj_title = ''Title'', pj_space_key = ''SP'', pj_body = ''<p>Hello</p>'',
           pj_version = 2, pj_ancestors = [], pj_labels = Some [''a'']\<rparr>]"
    by (simp add: run_defs)
  have c1: "re_search re_img ''<p>Hello</p>'' = None" "re_search re_link ''<p>Hello</p>'' = None"
    by (simp_all add: re_img_def re_link_def)
  show ?thesis
    using create_then_update_once [where w = "example_world []" and tr = "[]"
            and g = "example_globals\<lparr>LABELS := [''a'']\<rparr>" and title = "''Title''"
            and body = "''<p>Hello</p>''" and ancestors = "[]", OF example_create_send]
          create_then_update_once [where w = "example_world []" and tr = "[]"
            and g = example_globals and title = "''Title''"
            and body = "''<p>Hello</p>''" and ancestors = "[]", OF example_create_send]
          e1 c1
    by (simp add: example_globals_def show_int_def)
qed

subsection \<open>The local-reference pass under the bitbucket dialect\<close>

lemma headers_loop_NameError:
  "hs \<noteq> [] \<Longrightarrow> headers_loop g pre post hs st = Inl NameError"
  by (cases hs; cases st) (simp_all add: header_step_def slug_def)

text \<open>
  C4. Under the bitbucket dialect no header is ever given an anchor key, suffixed or
  not: on a body with at least one header, \<open>add_local_refs\<close> stops at the first header
  with the \<open>NameError\<close> of the unbound name \<open>slug\<close>, before the branch that appends
  the numeric suffix is reached. So it does for the headers \<open>Setup\<close>, \<open>Setup\<close>.
\<close>

theorem headings_raise_NameError:
  assumes "MARKDOWN_SOURCE g = ''bitbucket''" and "re_findall re_header html \<noteq> []"
  shows "add_local_refs g page_id title html tr = (tr, Inl (Uncaught NameError))"
  using assms
  by (simp add: add_local_refs_def ref_prefixes_def ref_postfixes_def Let_def
        headers_loop_NameError)

theorem headings_raise_NameError_witness:
  "MARKDOWN_SOURCE example_globals_bitbucket = ''bitbucket''
   \<and> map (\<lambda>(gs, m). grp 1 gs) (re_findall re_header example_headings_html) = [''Setup'', ''Setup'']
   \<and> add_local_refs example_globals_bitbucket ''42'' ''Title'' example_headings_html []
       = ([], Inl (Uncaught NameError))"
proof -
  have h1: "MARKDOWN_SOURCE example_globals_bitbucket = ''bitbucket''"
    by (simp add: example_globals_bitbucket_def example_globals_def)
  have hs: "map (\<lambda>(gs, m). grp 1 gs) (re_findall re_header example_headings_html) = [''Setup'', ''Setup'']"
    by (simp add: example_headings_html_def re_findall_def re_header_def grp_def)
  then have h2: "re_findall re_header example_headings_html \<noteq> []"
    by auto
  show ?thesis
    using headings_raise_NameError [OF h1 h2, of "''42''" "''Title''" "[]"] h1 hs by simp
qed




end
